theory Spec2Isabelle
  imports Complex_Main
begin

section \<open>Values shared by the models\<close>

text \<open>
  A Mongo ObjectId is handled by the controllers as its hexadecimal string
  (\<^verbatim>\<open>item.product.toString() === productId\<close>), a \<^verbatim>\<open>Date\<close> as the number of
  milliseconds since the epoch. A JavaScript \<^verbatim>\<open>Number\<close> that holds a quantity, a
  stock level or a price is an \<open>int\<close>; the rounding of IEEE doubles is outside
  the model.
\<close>

type_synonym objectId = string
type_synonym date = int

text \<open>
  What reaches the client when an operation does not succeed. \<open>ApiError\<close> carries
  the HTTP status and the message of a thrown \<^verbatim>\<open>new ApiError(status, message)\<close>
  (or of a direct \<^verbatim>\<open>res.status(status).json({message})\<close>); the other constructors
  are the errors thrown by mongoose (a schema validator that rejects a document, the
  unique index that rejects a duplicate key) and by the runtime (a property read on
  \<^verbatim>\<open>null\<close>).
\<close>

datatype error =
    ApiError nat string
  | ValidationError
  | DuplicateKey
  | TypeError

text \<open>\<^verbatim>\<open>Number.prototype.toString()\<close> of a non-negative integer: its decimal digits.\<close>

fun toString :: "nat \<Rightarrow> string" where
  "toString n =
     (if n < 10 then [char_of (48 + n)]
      else toString (n div 10) @ [char_of (48 + n mod 10)])"

declare toString.simps [simp del]

text \<open>\<^verbatim>\<open>String.prototype.padStart(length, ch)\<close>.\<close>

definition padStart :: "nat \<Rightarrow> char \<Rightarrow> string \<Rightarrow> string" where
  "padStart n c s = replicate (n - length s) c @ s"

text \<open>\<^verbatim>\<open>String.prototype.toUpperCase()\<close> on ASCII text.\<close>

definition toUpperCase :: "string \<Rightarrow> string" where
  "toUpperCase s =
     map (\<lambda>c. if 97 \<le> (of_char c :: nat) \<and> (of_char c :: nat) \<le> 122
              then char_of ((of_char c :: nat) - 32) else c) s"

section \<open>Product model (\<^verbatim>\<open>product.model.js\<close>)\<close>

datatype PRODUCT_STATUS = ACTIVE | DRAFT | OUT_OF_STOCK | DISCONTINUED

record product =
  p_id :: objectId
  sellingPrice :: "int option"
  stock :: int
  lowStockThreshold :: int
  status :: PRODUCT_STATUS
  sku :: "string option"
  isDeleted :: bool
  updatedAt :: date

subsection \<open>Virtuals\<close>

definition isInStock :: "product \<Rightarrow> bool" where
  "isInStock this = (stock this > 0 \<and> status this \<noteq> OUT_OF_STOCK)"

definition isLowStock :: "product \<Rightarrow> bool" where
  "isLowStock this = (stock this \<le> lowStockThreshold this \<and> stock this > 0)"

definition stockStatus :: "product \<Rightarrow> string" where
  "stockStatus this =
     (if stock this \<le> lowStockThreshold this then ''low-stock''
      else if stock this = 0 \<or> status this = OUT_OF_STOCK then ''out-of-stock''
      else ''in-stock'')"

subsection \<open>The first pre-save hook: status follows stock\<close>

text \<open>
  Only the stock branch of the hook is modelled (the slug and the price rounding touch
  other fields). \<open>stockModified\<close> is \<^verbatim>\<open>this.isModified("stock")\<close>. The two
  \<^verbatim>\<open>if\<close>s run one after the other, the second on the status the first has left.
\<close>

definition pre_save_status :: "bool \<Rightarrow> product \<Rightarrow> product" where
  "pre_save_status stockModified this =
     (if stockModified then
        (let this1 = (if stock this = 0 \<and> status this = ACTIVE
                      then this\<lparr>status := OUT_OF_STOCK\<rparr> else this)
         in if stock this1 > 0 \<and> status this1 = OUT_OF_STOCK
            then this1\<lparr>status := ACTIVE\<rparr> else this1)
      else this)"

subsection \<open>\<^verbatim>\<open>updateStock(quantity, op = "set")\<close>\<close>

text \<open>The method mutates \<^verbatim>\<open>this.stock\<close> and returns it; the model returns the document.\<close>

definition updateStock :: "product \<Rightarrow> int \<Rightarrow> string \<Rightarrow> product" where
  "updateStock this quantity op =
     (if op = ''add'' then this\<lparr>stock := stock this + quantity\<rparr>
      else if op = ''subtract'' then this\<lparr>stock := max 0 (stock this - quantity)\<rparr>
      else this\<lparr>stock := max 0 quantity\<rparr>)"

text \<open>A run of \<^verbatim>\<open>updateStock(q, "subtract")\<close> calls on one document.\<close>

fun subtract_all :: "product \<Rightarrow> int list \<Rightarrow> product" where
  "subtract_all this [] = this"
| "subtract_all this (q # qs) = subtract_all (updateStock this q ''subtract'') qs"

subsection \<open>\<^verbatim>\<open>bulkUpdateStock(items)\<close>\<close>

record stockItem =
  item_id :: objectId
  item_quantity :: int

text \<open>
  One \<^verbatim>\<open>updateOne\<close> operation of a bulk write: the filter
  \<^verbatim>\<open>{_id, isDeleted}\<close> and the update \<^verbatim>\<open>{$inc: {stock}, $set: {updatedAt}}\<close>.
\<close>

record updateOne =
  filter_id :: objectId
  filter_isDeleted :: bool
  inc_stock :: int
  set_updatedAt :: date

definition bulkUpdateStock_ops :: "date \<Rightarrow> stockItem list \<Rightarrow> updateOne list" where
  "bulkUpdateStock_ops now items =
     map (\<lambda>item. \<lparr>filter_id = item_id item, filter_isDeleted = False,
                   inc_stock = - item_quantity item, set_updatedAt = now\<rparr>) items"

text \<open>
  \<^verbatim>\<open>updateOne\<close> changes the first document that matches the filter, and only the
  fields the update names. A bulk write is sent to the store as it is: no document is
  loaded, so no \<^verbatim>\<open>save\<close> hook runs.
\<close>

fun apply_updateOne :: "updateOne \<Rightarrow> product list \<Rightarrow> product list" where
  "apply_updateOne u [] = []"
| "apply_updateOne u (p # ps) =
     (if p_id p = filter_id u \<and> isDeleted p = filter_isDeleted u
      then p\<lparr>stock := stock p + inc_stock u, updatedAt := set_updatedAt u\<rparr> # ps
      else p # apply_updateOne u ps)"

definition bulkWrite :: "updateOne list \<Rightarrow> product list \<Rightarrow> product list" where
  "bulkWrite ops ps = foldl (\<lambda>acc u. apply_updateOne u acc) ps ops"

definition bulkUpdateStock :: "date \<Rightarrow> stockItem list \<Rightarrow> product list \<Rightarrow> product list" where
  "bulkUpdateStock now items ps = bulkWrite (bulkUpdateStock_ops now items) ps"

section \<open>SKU generation (\<^verbatim>\<open>generateRandomSKU.js\<close> and the second pre-save hook)\<close>

text \<open>
  The random source is the sequence of values that successive calls of
  \<^verbatim>\<open>Math.random()\<close> return, each in \<open>[0, 1)\<close>; \<open>k\<close> counts the calls made so far.
  One SKU takes seven calls: three letters, one four-digit number, three letters.
\<close>

type_synonym rng = "nat \<Rightarrow> rat"

definition randomLetters :: "rng \<Rightarrow> nat \<Rightarrow> string" where
  "randomLetters rnd k =
     map (\<lambda>i. char_of (65 + nat \<lfloor>rnd (k + i) * 26\<rfloor>)) [0..<3]"

definition randomNumbers :: "rng \<Rightarrow> nat \<Rightarrow> string" where
  "randomNumbers rnd k = padStart 4 (CHR ''0'') (toString (nat \<lfloor>rnd k * 10 ^ 4\<rfloor>))"

definition generateRandomSKU :: "rng \<Rightarrow> nat \<Rightarrow> string" where
  "generateRandomSKU rnd k =
     randomLetters rnd k @ ''-'' @ randomNumbers rnd (k + 3) @ ''-'' @ randomLetters rnd (k + 4)"

text \<open>
  \<^verbatim>\<open>Product.findOne({ sku })\<close>. The \<^verbatim>\<open>pre(/^find/)\<close> hook adds
  \<^verbatim>\<open>isDeleted: { $ne: true }\<close> to a query that does not mention \<^verbatim>\<open>isDeleted\<close>.
\<close>

definition findOne_sku :: "product list \<Rightarrow> string \<Rightarrow> product option" where
  "findOne_sku ps s = find (\<lambda>p. sku p = Some s \<and> \<not> isDeleted p) ps"

text \<open>
  The loop \<^verbatim>\<open>while (exists) { newSKU = generateRandomSKU(); ... exists = !!found }\<close>
  starts with \<^verbatim>\<open>exists = true\<close>. Nothing bounds it, so the model is a partial function:
  \<open>None\<close> is a loop that never ends.
\<close>

partial_function (option) sku_loop :: "rng \<Rightarrow> product list \<Rightarrow> nat \<Rightarrow> string option" where
  "sku_loop rnd ps k =
     (let newSKU = generateRandomSKU rnd k in
      if findOne_sku ps newSKU \<noteq> None then sku_loop rnd ps (k + 7) else Some newSKU)"

text \<open>
  The hook itself: a document that already has a (non-empty) SKU is left alone,
  otherwise the loop's result is stored in upper case.
\<close>

definition pre_save_sku :: "rng \<Rightarrow> product list \<Rightarrow> product \<Rightarrow> product option" where
  "pre_save_sku rnd ps this =
     (if sku this \<noteq> None \<and> sku this \<noteq> Some [] then Some this
      else map_option (\<lambda>newSKU. this\<lparr>sku := Some (toUpperCase newSKU)\<rparr>) (sku_loop rnd ps 0))"

section \<open>Cart model (\<^verbatim>\<open>cart.model.js\<close>) and cart controller\<close>

record cartItem =
  product :: objectId
  quantity :: int
  priceAtAddTime :: int

record cart =
  user :: objectId
  items :: "cartItem list"
  totalPrice :: int
  totalItems :: int

text \<open>The pre-save hook: both totals are recomputed from the lines with \<^verbatim>\<open>reduce\<close>.\<close>

definition cart_pre_save :: "cart \<Rightarrow> cart" where
  "cart_pre_save this =
     this\<lparr>totalPrice :=
            foldl (\<lambda>total item. total + quantity item * priceAtAddTime item) 0 (items this),
          totalItems := foldl (\<lambda>total item. total + quantity item) 0 (items this)\<rparr>"

text \<open>The validators of \<^verbatim>\<open>cartItemSchema\<close>: \<^verbatim>\<open>quantity min 1\<close>, \<^verbatim>\<open>priceAtAddTime min 0\<close>.\<close>

definition cartItem_valid :: "cartItem \<Rightarrow> bool" where
  "cartItem_valid item = (1 \<le> quantity item \<and> 0 \<le> priceAtAddTime item)"

definition Cart_findOne :: "cart list \<Rightarrow> objectId \<Rightarrow> cart option" where
  "Cart_findOne carts userId = find (\<lambda>c. user c = userId) carts"

text \<open>Writing a cart document back: it replaces the user's cart, or is inserted.\<close>

fun store_cart :: "cart \<Rightarrow> cart list \<Rightarrow> cart list" where
  "store_cart c [] = [c]"
| "store_cart c (d # ds) = (if user d = user c then c # ds else d # store_cart c ds)"

text \<open>
  \<^verbatim>\<open>cart.save()\<close>: mongoose validates the document, then runs the pre-save hook, then
  writes. A rejected document is not written.
\<close>

definition cart_save :: "cart list \<Rightarrow> cart \<Rightarrow> error + (cart list \<times> cart)" where
  "cart_save carts this =
     (if list_all cartItem_valid (items this)
      then (let saved = cart_pre_save this in Inr (store_cart saved carts, saved))
      else Inl ValidationError)"

text \<open>\<^verbatim>\<open>existingItem.quantity += quantity\<close> on the first line of that product.\<close>

fun add_quantity :: "objectId \<Rightarrow> int \<Rightarrow> cartItem list \<Rightarrow> cartItem list" where
  "add_quantity productId qty [] = []"
| "add_quantity productId qty (item # rest) =
     (if product item = productId then item\<lparr>quantity := quantity item + qty\<rparr> # rest
      else item # add_quantity productId qty rest)"

fun findIndex :: "('a \<Rightarrow> bool) \<Rightarrow> 'a list \<Rightarrow> nat option" where
  "findIndex P [] = None"
| "findIndex P (x # xs) = (if P x then Some 0 else map_option Suc (findIndex P xs))"

text \<open>\<^verbatim>\<open>array.splice(i, 1)\<close>.\<close>

definition splice1 :: "nat \<Rightarrow> 'a list \<Rightarrow> 'a list" where
  "splice1 i xs = take i xs @ drop (Suc i) xs"

text \<open>
  \<^verbatim>\<open>addtoCart\<close>. \<^verbatim>\<open>!priceAtAddTime\<close> holds for the number 0. The body runs in a
  \<^verbatim>\<open>try\<close> whose \<^verbatim>\<open>catch\<close> answers 500 to whatever \<^verbatim>\<open>save\<close> throws.
\<close>

definition addtoCart ::
  "cart list \<Rightarrow> objectId \<Rightarrow> objectId \<Rightarrow> int \<Rightarrow> int \<Rightarrow> error + (cart list \<times> cart)" where
  "addtoCart carts userId productId qty price =
     (if productId = [] \<or> price = 0 then Inl (ApiError 400 ''Missing product or price'')
      else
        (let cart' =
           (case Cart_findOne carts userId of
              None \<Rightarrow>
                \<lparr>user = userId,
                 items = [\<lparr>product = productId, quantity = qty, priceAtAddTime = price\<rparr>],
                 totalPrice = 0, totalItems = 0\<rparr>
            | Some cart \<Rightarrow>
                (if find (\<lambda>item. product item = productId) (items cart) \<noteq> None
                 then cart\<lparr>items := add_quantity productId qty (items cart)\<rparr>
                 else cart\<lparr>items := items cart @
                        [\<lparr>product = productId, quantity = qty, priceAtAddTime = price\<rparr>]\<rparr>))
         in case cart_save carts cart' of
              Inl err \<Rightarrow> Inl (ApiError 500 ''Server error'')
            | Inr r \<Rightarrow> Inr r))"

definition updateCart ::
  "cart list \<Rightarrow> objectId \<Rightarrow> objectId \<Rightarrow> int \<Rightarrow> error + (cart list \<times> cart)" where
  "updateCart carts userId productId qty =
     (if productId = [] \<or> qty < 0 then Inl (ApiError 400 ''Invalid product ID or quantity'')
      else case Cart_findOne carts userId of
        None \<Rightarrow> Inl (ApiError 404 ''Cart not found'')
      | Some cart \<Rightarrow>
          (case findIndex (\<lambda>item. product item = productId) (items cart) of
             None \<Rightarrow> Inl (ApiError 404 ''Product not found in cart'')
           | Some itemIndex \<Rightarrow>
               cart_save carts
                 (if qty = 0 then cart\<lparr>items := splice1 itemIndex (items cart)\<rparr>
                  else cart\<lparr>items := (items cart)
                         [itemIndex := (items cart ! itemIndex)\<lparr>quantity := qty\<rparr>]\<rparr>)))"

definition removeFromCart ::
  "cart list \<Rightarrow> objectId \<Rightarrow> objectId \<Rightarrow> error + (cart list \<times> cart)" where
  "removeFromCart carts userId productId =
     (if productId = [] then Inl (ApiError 400 ''Product ID is required'')
      else case Cart_findOne carts userId of
        None \<Rightarrow> Inl (ApiError 404 ''Cart not found'')
      | Some cart \<Rightarrow>
          (case findIndex (\<lambda>item. product item = productId) (items cart) of
             None \<Rightarrow> Inl (ApiError 404 ''Product not found in cart'')
           | Some itemIndex \<Rightarrow>
               cart_save carts (cart\<lparr>items := splice1 itemIndex (items cart)\<rparr>)))"

definition clearCart :: "cart list \<Rightarrow> objectId \<Rightarrow> error + (cart list \<times> cart)" where
  "clearCart carts userId =
     (case Cart_findOne carts userId of
        None \<Rightarrow> Inl (ApiError 404 ''Cart not found'')
      | Some cart \<Rightarrow> cart_save carts (cart\<lparr>items := [], totalItems := 0, totalPrice := 0\<rparr>))"

text \<open>
  \<^verbatim>\<open>Cart.findOneAndUpdate({ user }, { items: [] })\<close>, the way order creation empties the
  cart: the store sets the one field of the first matching document. No document is
  loaded and saved, so \<open>cart_pre_save\<close> does not run.
\<close>

fun Cart_findOneAndUpdate_items :: "objectId \<Rightarrow> cartItem list \<Rightarrow> cart list \<Rightarrow> cart list" where
  "Cart_findOneAndUpdate_items userId new [] = []"
| "Cart_findOneAndUpdate_items userId new (c # cs) =
     (if user c = userId then c\<lparr>items := new\<rparr> # cs
      else c # Cart_findOneAndUpdate_items userId new cs)"

text \<open>What the specification asks of a cart: its totals are those of its lines.\<close>

definition totals_consistent :: "cart \<Rightarrow> bool" where
  "totals_consistent c =
     (totalItems c = sum_list (map quantity (items c)) \<and>
      totalPrice c = sum_list (map (\<lambda>item. quantity item * priceAtAddTime item) (items c)))"

section \<open>Order model (\<^verbatim>\<open>order.model.js\<close>)\<close>

definition PAYMENT_METHODS :: "string list" where
  "PAYMENT_METHODS = [''COD'', ''CARD'', ''UPI'', ''WALLET'']"

definition PAYMENT_STATUS :: "string list" where
  "PAYMENT_STATUS = [''pending'', ''paid'', ''failed'', ''refunded'']"

definition ORDER_STATUS :: "string list" where
  "ORDER_STATUS = [''processing'', ''confirmed'', ''shipped'', ''out_for_delivery'',
     ''delivered'', ''cancelled'', ''returned'']"

text \<open>
  An order line as the controller builds it. \<open>unitPrice\<close> and \<open>totalPrice\<close> are
  \<open>None\<close> when the source value is \<^verbatim>\<open>undefined\<close> (and the product \<^verbatim>\<open>NaN\<close>); the
  schema's \<^verbatim>\<open>required\<close> then rejects the line.
\<close>

record orderItem =
  product :: objectId
  quantity :: int
  unitPrice :: "int option"
  totalPrice :: "int option"

text \<open>The required sub-fields of the address (\<^verbatim>\<open>country\<close> has a default).\<close>

record shippingAddress =
  fullName :: "string option"
  phone :: "string option"
  street :: "string option"
  city :: "string option"
  state :: "string option"
  postalCode :: "string option"

record order =
  o_id :: objectId
  orderNumber :: string
  user :: objectId
  items :: "orderItem list"
  shippingAddress :: shippingAddress
  paymentMethod :: string
  paymentStatus :: string
  orderStatus :: string
  paidAt :: "date option"
  trackingNumber :: "string option"
  estimatedDelivery :: "date option"
  order_notes :: "string option"
  cancelReason :: "string option"
  totalAmount :: int
  isDelivered :: bool
  deliveredAt :: "date option"
  createdAt :: date

text \<open>
  The pre-save hook. \<open>isNew\<close>, \<open>statusModified\<close> and \<open>paymentModified\<close> are
  \<^verbatim>\<open>this.isNew\<close>, \<^verbatim>\<open>this.isModified('orderStatus')\<close> and
  \<^verbatim>\<open>this.isModified('paymentStatus')\<close>; \<open>generated\<close> is the string
  \<^verbatim>\<open>ORD${date}${random}\<close> that the first branch computes from the calendar date and a
  four-digit random number.
\<close>

definition order_pre_save :: "date \<Rightarrow> string \<Rightarrow> bool \<Rightarrow> bool \<Rightarrow> bool \<Rightarrow> order \<Rightarrow> order" where
  "order_pre_save now generated isNew statusModified paymentModified this =
     (let this1 = (if isNew \<and> orderNumber this = [] then this\<lparr>orderNumber := generated\<rparr>
                   else this);
          this2 = (if statusModified \<and> orderStatus this1 = ''delivered''
                   then (let d = this1\<lparr>isDelivered := True\<rparr>
                         in if deliveredAt d = None then d\<lparr>deliveredAt := Some now\<rparr> else d)
                   else this1)
      in if paymentModified \<and> paymentStatus this2 = ''paid'' \<and> paidAt this2 = None
         then this2\<lparr>paidAt := Some now\<rparr> else this2)"

definition canBeCancelled :: "order \<Rightarrow> bool" where
  "canBeCancelled this = (orderStatus this \<in> set [''processing'', ''confirmed''])"

subsection \<open>Schema validators\<close>

text \<open>
  \<^verbatim>\<open>String.prototype.trim()\<close>, applied by \<^verbatim>\<open>trim: true\<close>: it removes white space
  and line terminators at both ends (among the ASCII characters: tab, line feed,
  vertical tab, form feed, carriage return and space).
\<close>

definition isWhiteSpace :: "char \<Rightarrow> bool" where
  "isWhiteSpace c = (c \<in> set [CHR 0x09, CHR 0x0A, CHR 0x0B, CHR 0x0C, CHR 0x0D, CHR 0x20])"

definition trim :: "string \<Rightarrow> string" where
  "trim s = rev (dropWhile isWhiteSpace (rev (dropWhile isWhiteSpace s)))"

text \<open>\<^verbatim>\<open>required: true\<close> on a string path rejects \<^verbatim>\<open>undefined\<close> and the empty string.\<close>

definition required_string :: "string option \<Rightarrow> bool" where
  "required_string v = (case v of None \<Rightarrow> False | Some s \<Rightarrow> trim s \<noteq> [])"

definition maxlength :: "nat \<Rightarrow> string option \<Rightarrow> bool" where
  "maxlength n v = (case v of None \<Rightarrow> True | Some s \<Rightarrow> length s \<le> n)"

definition shippingAddress_valid :: "shippingAddress \<Rightarrow> bool" where
  "shippingAddress_valid a =
     (required_string (fullName a) \<and> required_string (phone a) \<and> required_string (street a) \<and>
      required_string (city a) \<and> required_string (state a) \<and> required_string (postalCode a))"

definition orderItem_valid :: "orderItem \<Rightarrow> bool" where
  "orderItem_valid item =
     (1 \<le> quantity item \<and>
      (case unitPrice item of None \<Rightarrow> False | Some u \<Rightarrow> 0 \<le> u) \<and>
      (case totalPrice item of None \<Rightarrow> False | Some t \<Rightarrow> 0 \<le> t))"

text \<open>
  The validators of \<^verbatim>\<open>orderSchema\<close> on the paths of the model: the required order
  number, the items validator and the validators of each item, the required address
  fields, the three enums, the two \<^verbatim>\<open>maxlength\<close>s and \<^verbatim>\<open>totalAmount min 0\<close>.
\<close>

definition order_valid :: "order \<Rightarrow> bool" where
  "order_valid this =
     (orderNumber this \<noteq> [] \<and> items this \<noteq> [] \<and> list_all orderItem_valid (items this) \<and>
      shippingAddress_valid (shippingAddress this) \<and>
      paymentMethod this \<in> set PAYMENT_METHODS \<and>
      paymentStatus this \<in> set PAYMENT_STATUS \<and>
      orderStatus this \<in> set ORDER_STATUS \<and>
      maxlength 500 (order_notes this) \<and> maxlength 200 (cancelReason this) \<and>
      0 \<le> totalAmount this)"

subsection \<open>The order collection\<close>

definition Order_findById :: "order list \<Rightarrow> objectId \<Rightarrow> order option" where
  "Order_findById orders ident = find (\<lambda>ord. o_id ord = ident) orders"

definition Order_findOne :: "order list \<Rightarrow> objectId \<Rightarrow> objectId \<Rightarrow> order option" where
  "Order_findOne orders ident userId = find (\<lambda>ord. o_id ord = ident \<and> user ord = userId) orders"

fun store_order :: "order \<Rightarrow> order list \<Rightarrow> order list" where
  "store_order this [] = []"
| "store_order this (d # ds) = (if o_id d = o_id this then this # ds else d # store_order this ds)"

text \<open>
  \<^verbatim>\<open>Order.create(doc)\<close>: the schema defaults are filled in, the document is validated,
  the pre-save hook runs, and the insert is refused by the unique index when the
  collection already holds the order number.
\<close>

definition Order_create ::
  "date \<Rightarrow> string \<Rightarrow> objectId \<Rightarrow> order list \<Rightarrow> objectId \<Rightarrow> string \<Rightarrow> orderItem list \<Rightarrow>
   shippingAddress \<Rightarrow> string option \<Rightarrow> int option \<Rightarrow> string option \<Rightarrow> error + (order list \<times> order)" where
  "Order_create now generated newId orders userId number lines address method amount note =
     (case (method, amount) of
        (Some m, Some a) \<Rightarrow>
          if number \<noteq> [] \<and> lines \<noteq> [] \<and> list_all orderItem_valid lines \<and>
             shippingAddress_valid address \<and> m \<in> set PAYMENT_METHODS \<and> 0 \<le> a \<and>
             maxlength 500 note
          then
            (let doc = order_pre_save now generated True False False
                   \<lparr>o_id = newId, orderNumber = number, user = userId, items = lines,
                    shippingAddress = address, paymentMethod = m, paymentStatus = ''pending'',
                    orderStatus = ''processing'', paidAt = None, trackingNumber = None,
                    estimatedDelivery = None, order_notes = note, cancelReason = None,
                    totalAmount = a, isDelivered = False, deliveredAt = None,
                    createdAt = now\<rparr>
             in if orderNumber doc \<in> set (map orderNumber orders) then Inl DuplicateKey
                else Inr (orders @ [doc], doc))
          else Inl ValidationError
      | _ \<Rightarrow> Inl ValidationError)"

text \<open>
  \<^verbatim>\<open>order.save()\<close> of a document loaded as \<open>loaded\<close> and then assigned to. The
  whole document is validated, every loaded path whether assigned to or not; then the
  hook runs, for which a path is modified when the assigned value differs from the
  loaded one; then the document is written back. A rejected document is not written.
\<close>

definition order_save :: "date \<Rightarrow> order list \<Rightarrow> order \<Rightarrow> order \<Rightarrow> error + (order list \<times> order)" where
  "order_save now orders loaded this =
     (if order_valid this
      then (let saved = order_pre_save now [] False (orderStatus this \<noteq> orderStatus loaded)
                          (paymentStatus this \<noteq> paymentStatus loaded) this
            in Inr (store_order saved orders, saved))
      else Inl ValidationError)"

section \<open>Order controller (\<^verbatim>\<open>order.controller.js\<close>)\<close>

record db =
  carts :: "cart list"
  products :: "product list"
  orders :: "order list"

record bodyItem =
  b_product :: objectId
  b_quantity :: int
  b_sellingPrice :: "int option"

text \<open>
  \<^verbatim>\<open>.populate("items.product")\<close> replaces each reference by the product document, or
  by \<^verbatim>\<open>null\<close> when the query finds none; the query passes the \<^verbatim>\<open>pre(/^find/)\<close> hook,
  which hides soft-deleted products.
\<close>

definition populate_product :: "product list \<Rightarrow> objectId \<Rightarrow> product option" where
  "populate_product ps ident = find (\<lambda>p. p_id p = ident \<and> \<not> isDeleted p) ps"

text \<open>
  The \<^verbatim>\<open>map\<close> over the populated cart lines. \<^verbatim>\<open>item.product._id\<close> on a line whose
  product is \<^verbatim>\<open>null\<close> throws.
\<close>

fun snapshot_cart :: "product list \<Rightarrow> cartItem list \<Rightarrow> error + orderItem list" where
  "snapshot_cart ps [] = Inr []"
| "snapshot_cart ps (item # rest) =
     (case populate_product ps (cartItem.product item) of
        None \<Rightarrow> Inl TypeError
      | Some p \<Rightarrow>
          (case snapshot_cart ps rest of
             Inl err \<Rightarrow> Inl err
           | Inr lines \<Rightarrow>
               Inr (\<lparr>product = p_id p, quantity = cartItem.quantity item,
                     unitPrice = sellingPrice p,
                     totalPrice = map_option (\<lambda>price. price * cartItem.quantity item)
                                    (sellingPrice p)\<rparr> # lines)))"

definition snapshot_body :: "bodyItem list \<Rightarrow> orderItem list" where
  "snapshot_body bs =
     map (\<lambda>item. \<lparr>product = b_product item, quantity = b_quantity item,
                   unitPrice = b_sellingPrice item,
                   totalPrice = map_option (\<lambda>price. price * b_quantity item)
                                  (b_sellingPrice item)\<rparr>) bs"

text \<open>
  The body of the \<^verbatim>\<open>try\<close> block of \<^verbatim>\<open>createOrder\<close>. \<open>now\<close> is \<^verbatim>\<open>Date.now()\<close> (also
  taken as the creation timestamp), \<open>newId\<close> the ObjectId the new document
  receives, \<open>userOpt\<close> is \<^verbatim>\<open>req.user\<close>, and \<open>fromCart\<close> defaults to \<^verbatim>\<open>true\<close>.
  The result carries the new store and the response \<^verbatim>\<open>{_id, orderNumber}\<close>.
\<close>

definition createOrder_try ::
  "date \<Rightarrow> string \<Rightarrow> objectId \<Rightarrow> db \<Rightarrow> objectId option \<Rightarrow> shippingAddress \<Rightarrow> string option \<Rightarrow>
   int option \<Rightarrow> string option \<Rightarrow> bodyItem list option \<Rightarrow> bool option \<Rightarrow>
   error + (db \<times> objectId \<times> string)" where
  "createOrder_try now generated newId st userOpt address method amount note bodyItems fromCart =
     (case userOpt of
        None \<Rightarrow> Inl (ApiError 401 ''User not authenticated'')
      | Some userId \<Rightarrow>
          if userId = [] then Inl (ApiError 401 ''User not authenticated'')
          else
            (let useCart = (case fromCart of None \<Rightarrow> True | Some b \<Rightarrow> b) in
             case (if useCart then
                     (case Cart_findOne (carts st) userId of
                        None \<Rightarrow> Inl (ApiError 400 ''Cart is empty'')
                      | Some cart \<Rightarrow>
                          if cart.items cart = [] then Inl (ApiError 400 ''Cart is empty'')
                          else snapshot_cart (products st) (cart.items cart))
                   else
                     (case bodyItems of
                        None \<Rightarrow> Inl (ApiError 400 ''No items provided'')
                      | Some bs \<Rightarrow>
                          if bs = [] then Inl (ApiError 400 ''No items provided'')
                          else Inr (snapshot_body bs))) of
               Inl err \<Rightarrow> Inl err
             | Inr lines \<Rightarrow>
                 (case Order_create now generated newId (orders st) userId
                         (''ORD-'' @ toString (nat now)) lines address method amount note of
                    Inl err \<Rightarrow> Inl err
                  | Inr (orders', ord) \<Rightarrow>
                      Inr (st\<lparr>orders := orders',
                              carts := (if useCart
                                        then Cart_findOneAndUpdate_items userId [] (carts st)
                                        else carts st)\<rparr>,
                           o_id ord, orderNumber ord))))"

text \<open>
  The \<^verbatim>\<open>catch\<close> block: an \<^verbatim>\<open>ApiError\<close> is answered with its own status and message,
  anything else with 500.
\<close>

definition createOrder ::
  "date \<Rightarrow> string \<Rightarrow> objectId \<Rightarrow> db \<Rightarrow> objectId option \<Rightarrow> shippingAddress \<Rightarrow> string option \<Rightarrow>
   int option \<Rightarrow> string option \<Rightarrow> bodyItem list option \<Rightarrow> bool option \<Rightarrow>
   error + (db \<times> objectId \<times> string)" where
  "createOrder now generated newId st userOpt address method amount note bodyItems fromCart =
     (case createOrder_try now generated newId st userOpt address method amount note
             bodyItems fromCart of
        Inl (ApiError code msg) \<Rightarrow> Inl (ApiError code msg)
      | Inl _ \<Rightarrow> Inl (ApiError 500 ''Internal Server Error'')
      | Inr r \<Rightarrow> Inr r)"

text \<open>\<^verbatim>\<open>cancelOrder\<close>: \<open>reason\<close> is \<^verbatim>\<open>req.body.cancelReason\<close>, which may be absent.\<close>

definition cancelOrder ::
  "date \<Rightarrow> order list \<Rightarrow> objectId \<Rightarrow> objectId \<Rightarrow> string option \<Rightarrow> error + (order list \<times> order)" where
  "cancelOrder now os orderId userId reason =
     (case Order_findOne os orderId userId of
        None \<Rightarrow> Inl (ApiError 404 ''Order not found'')
      | Some ord \<Rightarrow>
          if \<not> canBeCancelled ord
          then Inl (ApiError 400 ''Order cannot be cancelled at this stage'')
          else order_save now os ord
                 (ord\<lparr>orderStatus := ''cancelled'', cancelReason := reason\<rparr>))"

text \<open>
  \<^verbatim>\<open>updateOrderStatus\<close>: the tracking number and the estimated delivery are assigned
  when the request carries a truthy value (not the empty string, not the number 0).
\<close>

definition updateOrderStatus ::
  "date \<Rightarrow> order list \<Rightarrow> objectId \<Rightarrow> string \<Rightarrow> string option \<Rightarrow> date option \<Rightarrow>
   error + (order list \<times> order)" where
  "updateOrderStatus now os ident newStatus tracking estimated =
     (if newStatus \<notin> set ORDER_STATUS then Inl (ApiError 400 ''Invalid order status'')
      else case Order_findById os ident of
        None \<Rightarrow> Inl (ApiError 404 ''Order not found'')
      | Some ord \<Rightarrow>
          (let o1 = ord\<lparr>orderStatus := newStatus\<rparr>;
               o2 = (case tracking of
                       None \<Rightarrow> o1
                     | Some t \<Rightarrow> if t \<noteq> [] then o1\<lparr>trackingNumber := Some t\<rparr> else o1);
               o3 = (case estimated of
                       None \<Rightarrow> o2
                     | Some d \<Rightarrow> if d \<noteq> 0 then o2\<lparr>estimatedDelivery := Some d\<rparr> else o2)
           in order_save now os ord o3))"

subsection \<open>\<^verbatim>\<open>getOrderAnalytics\<close>\<close>

text \<open>A JSON value of the response, and an object as its list of fields.\<close>

datatype jsval = JNull | JNum rat | JStr string

type_synonym jsobject = "(string \<times> jsval) list"

text \<open>
  \<^verbatim>\<open>startDate.setDate(startDate.getDate() - days)\<close>, taken as whole days of
  86400000 ms (daylight-saving shifts of the local calendar are outside the model).
\<close>

definition window_start :: "date \<Rightarrow> int \<Rightarrow> date" where
  "window_start now days = now - days * 86400000"

definition match_createdAt :: "date \<Rightarrow> order list \<Rightarrow> order list" where
  "match_createdAt startDate os = filter (\<lambda>ord. startDate \<le> createdAt ord) os"

text \<open>
  \<^verbatim>\<open>$group\<close> with \<^verbatim>\<open>_id: null\<close> puts all the documents it receives in one group, and
  emits a group only for a key that occurs: no document, no group.
\<close>

definition group_summary :: "order list \<Rightarrow> jsobject list" where
  "group_summary os =
     (if os = [] then []
      else [[(''_id'', JNull),
             (''totalOrders'', JNum (of_nat (length os))),
             (''totalRevenue'', JNum (of_int (sum_list (map totalAmount os)))),
             (''avgOrderValue'',
                JNum (of_int (sum_list (map totalAmount os)) / of_nat (length os))),
             (''cancelledOrders'',
                JNum (of_nat (length (filter (\<lambda>ord. orderStatus ord = ''cancelled'') os)))),
             (''deliveredOrders'',
                JNum (of_nat (length (filter (\<lambda>ord. orderStatus ord = ''delivered'') os))))]])"

definition group_by_status :: "order list \<Rightarrow> jsobject list" where
  "group_by_status os =
     map (\<lambda>s. [(''_id'', JStr s),
               (''count'', JNum (of_nat (length (filter (\<lambda>ord. orderStatus ord = s) os))))])
       (remdups (map orderStatus os))"

text \<open>
  The response's \<^verbatim>\<open>summary\<close> (\<^verbatim>\<open>analytics[0] || {}\<close>) and \<^verbatim>\<open>statusBreakdown\<close>;
  \<^verbatim>\<open>days\<close> defaults to 30.
\<close>

definition getOrderAnalytics :: "date \<Rightarrow> int option \<Rightarrow> order list \<Rightarrow> jsobject \<times> jsobject list" where
  "getOrderAnalytics now days os =
     (let startDate = window_start now (case days of None \<Rightarrow> 30 | Some d \<Rightarrow> d);
          analytics = group_summary (match_createdAt startDate os);
          statusBreakdown = group_by_status (match_createdAt startDate os)
      in (case analytics of [] \<Rightarrow> [] | a # _ \<Rightarrow> a, statusBreakdown))"

section \<open>Notions used to state the properties, and sample data\<close>

text \<open>
  The \<open>j\<close>-th candidate the SKU loop draws (seven random numbers each), and whether
  the loop's lookup finds a candidate in the store. The lookup hides soft-deleted
  products, so a candidate collides only with the SKU of a product that is not
  soft-deleted.
\<close>

definition candidate :: "rng \<Rightarrow> nat \<Rightarrow> string" where
  "candidate rnd j = generateRandomSKU rnd (7 * j)"

definition collides :: "product list \<Rightarrow> string \<Rightarrow> bool" where
  "collides ps s = (findOne_sku ps s \<noteq> None)"

definition stock_demo :: product where
  "stock_demo = \<lparr>p_id = ''p1'', sellingPrice = Some 10, stock = 5, lowStockThreshold = 10,
     status = ACTIVE, sku = None, isDeleted = False, updatedAt = 0\<rparr>"

definition sku_taken :: product where
  "sku_taken = \<lparr>p_id = ''p0'', sellingPrice = Some 5, stock = 1, lowStockThreshold = 10,
     status = ACTIVE, sku = Some ''AAA-0000-AAA'', isDeleted = False, updatedAt = 0\<rparr>"

text \<open>The same SKU held by a soft-deleted product only.\<close>

definition sku_deleted :: product where
  "sku_deleted = sku_taken\<lparr>isDeleted := True\<rparr>"

definition sku_fresh :: product where
  "sku_fresh = \<lparr>p_id = ''p9'', sellingPrice = Some 7, stock = 3, lowStockThreshold = 10,
     status = DRAFT, sku = None, isDeleted = False, updatedAt = 0\<rparr>"

text \<open>A random source whose first seven values are 0 and all later ones one half.\<close>

definition rnd_second_free :: rng where
  "rnd_second_free = (\<lambda>i. if i < 7 then 0 else 1 / 2)"

definition address_demo :: shippingAddress where
  "address_demo = \<lparr>fullName = Some ''Asha Rao'', phone = Some ''5550100'',
     street = Some ''1 Main Road'', city = Some ''Pune'', state = Some ''MH'',
     postalCode = Some ''411001''\<rparr>"

text \<open>
  Two users with one cart line each, of the same product; the first line was added
  when the price was 8, the catalog now says 10.
\<close>

definition cart_u1 :: cart where
  "cart_u1 = \<lparr>cart.user = ''u1'',
     cart.items = [\<lparr>cartItem.product = ''p1'', cartItem.quantity = 2, priceAtAddTime = 8\<rparr>],
     cart.totalPrice = 16, totalItems = 2\<rparr>"

definition cart_u2 :: cart where
  "cart_u2 = \<lparr>cart.user = ''u2'',
     cart.items = [\<lparr>cartItem.product = ''p1'', cartItem.quantity = 1, priceAtAddTime = 10\<rparr>],
     cart.totalPrice = 10, totalItems = 1\<rparr>"

definition shop_db :: db where
  "shop_db = \<lparr>carts = [cart_u1, cart_u2], products = [stock_demo], orders = []\<rparr>"

text \<open>The store after the first user's checkout at time 1700000000000.\<close>

definition order_first :: order where
  "order_first = \<lparr>o_id = ''o1'', orderNumber = ''ORD-1700000000000'', user = ''u1'',
     items = [\<lparr>product = ''p1'', quantity = 2, unitPrice = Some 10, totalPrice = Some 20\<rparr>],
     shippingAddress = address_demo, paymentMethod = ''COD'', paymentStatus = ''pending'',
     orderStatus = ''processing'', paidAt = None, trackingNumber = None,
     estimatedDelivery = None, order_notes = None, cancelReason = None, totalAmount = 20,
     isDelivered = False, deliveredAt = None, createdAt = 1700000000000\<rparr>"

definition cart_u1_after :: cart where
  "cart_u1_after =
     \<lparr>cart.user = ''u1'', cart.items = [], cart.totalPrice = 16, totalItems = 2\<rparr>"

definition shop_after_first :: db where
  "shop_after_first =
     \<lparr>carts = [cart_u1_after, cart_u2], products = [stock_demo], orders = [order_first]\<rparr>"

text \<open>A random source that returns 0 at every call.\<close>

definition rnd_always_zero :: rng where
  "rnd_always_zero = (\<lambda>i. 0)"

text \<open>An older order of the same user, already shipped.\<close>

definition order_old :: order where
  "order_old = order_first\<lparr>o_id := ''o0'', orderNumber := ''ORD-1600000000000'',
     orderStatus := ''shipped'', createdAt := 1600000000000\<rparr>"

text \<open>The document that \<^verbatim>\<open>updateOrderStatus\<close> has assigned to when it calls \<^verbatim>\<open>save\<close>.\<close>

definition assigned :: "order \<Rightarrow> string \<Rightarrow> string option \<Rightarrow> date option \<Rightarrow> order" where
  "assigned ord newStatus tracking estimated =
     (let o1 = ord\<lparr>orderStatus := newStatus\<rparr>;
          o2 = (case tracking of
                  None \<Rightarrow> o1
                | Some t \<Rightarrow> if t \<noteq> [] then o1\<lparr>trackingNumber := Some t\<rparr> else o1);
          o3 = (case estimated of
                  None \<Rightarrow> o2
                | Some d \<Rightarrow> if d \<noteq> 0 then o2\<lparr>estimatedDelivery := Some d\<rparr> else o2)
      in o3)"

section \<open>Evaluation helpers\<close>

lemma replicate_numeral_step:
  "replicate (numeral k) x = x # replicate (pred_numeral k) x"
  by (simp add: numeral_eq_Suc)

lemma toString_digit: "n < 10 \<Longrightarrow> toString n = [char_of (48 + n)]"
  by (simp add: toString.simps)

lemma toString_digits:
  "10 \<le> n \<Longrightarrow> toString n = toString (n div 10) @ [char_of (48 + n mod 10)]"
  by (subst toString.simps) simp

lemmas eval_chars =
  char_of_def bit_Suc_0_iff replicate_numeral_step toString_digit toString_digits

lemma toString_demo: "toString 1700000000000 = ''1700000000000''"
  by (simp add: eval_chars)

section \<open>Stock ledger\<close>

lemma subtract_all_nonneg:
  "0 \<le> stock this \<Longrightarrow> 0 \<le> stock (subtract_all this qs)"
  by (induction qs arbitrary: this) (simp_all add: updateStock_def)

text \<open>
  C5. \<^verbatim>\<open>updateStock(q, "subtract")\<close> sets the stock to \<open>max 0 (stock - q)\<close>, which is
  never negative; after any run of subtract calls (a non-empty run, or any run from a
  non-negative stock) the stock is not negative; \<^verbatim>\<open>updateStock(q, "add")\<close> adds \<open>q\<close>,
  and no bound \<open>M\<close> limits what it can reach.
\<close>

theorem updateStock_subtract_clamps_add_unbounded:
  "stock (updateStock this q ''subtract'') = max 0 (stock this - q)
   \<and> 0 \<le> stock (updateStock this q ''subtract'')
   \<and> (qs \<noteq> [] \<or> 0 \<le> stock this \<longrightarrow> 0 \<le> stock (subtract_all this qs))
   \<and> stock (updateStock this q ''add'') = stock this + q
   \<and> (\<exists>q'. M < stock (updateStock this q' ''add''))"
proof -
  have sub: "stock (updateStock this q ''subtract'') = max 0 (stock this - q)"
    by (simp add: updateStock_def)
  have seq: "0 \<le> stock (subtract_all this qs)" if "qs \<noteq> [] \<or> 0 \<le> stock this"
  proof (cases qs)
    case Nil
    with that show ?thesis by simp
  next
    case (Cons x xs)
    have "0 \<le> stock (updateStock this x ''subtract'')"
      by (simp add: updateStock_def)
    then show ?thesis
      unfolding Cons by (simp add: subtract_all_nonneg)
  qed
  have add: "stock (updateStock this q' ''add'') = stock this + q'" for q'
    by (simp add: updateStock_def)
  have "M < stock (updateStock this (M - stock this + 1) ''add'')"
    unfolding add by simp
  then have unb: "\<exists>q'. M < stock (updateStock this q' ''add'')" ..
  from sub seq add unb show ?thesis by simp
qed

theorem updateStock_subtract_clamps_add_unbounded_witness:
  "stock (updateStock stock_demo 8 ''subtract'') = 0
   \<and> stock (subtract_all stock_demo [3, 4, -2, 9]) = 0
   \<and> 0 \<le> stock (subtract_all stock_demo [3, 4, -2, 9])
   \<and> stock (updateStock stock_demo 8 ''add'') = 13"
  using updateStock_subtract_clamps_add_unbounded [of stock_demo 8 "[3, 4, -2, 9]" 0]
  by (simp add: stock_demo_def updateStock_def)

text \<open>
  C10. For a product whose threshold is not negative: with stock 0 the virtual
  \<^verbatim>\<open>stockStatus\<close> reads "low-stock", and it reads "out-of-stock" exactly when the
  stock is above the threshold and the status field is \<open>OUT_OF_STOCK\<close>.
\<close>

theorem stockStatus_zero_stock_is_low_stock:
  assumes "0 \<le> lowStockThreshold this"
  shows "(stock this = 0 \<longrightarrow> stockStatus this = ''low-stock'')
     \<and> (stockStatus this = ''out-of-stock''
          \<longleftrightarrow> lowStockThreshold this < stock this \<and> status this = OUT_OF_STOCK)"
  using assms by (auto simp add: stockStatus_def)

theorem stockStatus_zero_stock_is_low_stock_witness:
  "0 \<le> lowStockThreshold stock_demo
   \<and> stockStatus (stock_demo\<lparr>stock := 0, status := OUT_OF_STOCK\<rparr>) = ''low-stock''
   \<and> stockStatus (stock_demo\<lparr>stock := 11, status := OUT_OF_STOCK\<rparr>) = ''out-of-stock''"
proof -
  have h: "0 \<le> lowStockThreshold (stock_demo\<lparr>stock := 0, status := OUT_OF_STOCK\<rparr>)"
    by (simp add: stock_demo_def)
  have h2: "0 \<le> lowStockThreshold (stock_demo\<lparr>stock := 11, status := OUT_OF_STOCK\<rparr>)"
    by (simp add: stock_demo_def)
  from stockStatus_zero_stock_is_low_stock [OF h] stockStatus_zero_stock_is_low_stock [OF h2]
  show ?thesis by (simp add: stock_demo_def)
qed

lemma bulkUpdateStock_ops_one_per_item:
  "length (bulkUpdateStock_ops now its) = length its
   \<and> map filter_id (bulkUpdateStock_ops now its) = map item_id its
   \<and> map inc_stock (bulkUpdateStock_ops now its) = map (\<lambda>i. - item_quantity i) its
   \<and> list_all (\<lambda>u. \<not> filter_isDeleted u) (bulkUpdateStock_ops now its)"
  by (simp add: bulkUpdateStock_ops_def list_all_iff comp_def)

text \<open>
  C2. The bulk decrement of 5 on an ACTIVE product with stock 5 leaves stock 0 and
  status ACTIVE: the update carries no status transition. The same decrement made
  with \<^verbatim>\<open>updateStock\<close> and saved goes through the pre-save hook and ends OUT_OF_STOCK.
\<close>

theorem bulkUpdateStock_leaves_status:
  "map (\<lambda>p. (stock p, status p))
      (bulkUpdateStock 1000 [\<lparr>item_id = ''p1'', item_quantity = 5\<rparr>] [stock_demo])
     = [(0, ACTIVE)]
   \<and> (stock (pre_save_status True (updateStock stock_demo 5 ''subtract'')),
      status (pre_save_status True (updateStock stock_demo 5 ''subtract'')))
     = (0, OUT_OF_STOCK)"
  by (simp add: bulkUpdateStock_def bulkUpdateStock_ops_def bulkWrite_def stock_demo_def
      pre_save_status_def updateStock_def)

section \<open>SKU generation\<close>

lemma sku_loop_first_free:
  "\<not> collides ps (generateRandomSKU rnd (k + 7 * n)) \<Longrightarrow>
   (\<And>j. j < n \<Longrightarrow> collides ps (generateRandomSKU rnd (k + 7 * j))) \<Longrightarrow>
   sku_loop rnd ps k = Some (generateRandomSKU rnd (k + 7 * n))"
proof (induction n arbitrary: k)
  case 0
  then show ?case
    by (subst sku_loop.simps) (simp add: collides_def)
next
  case (Suc n)
  have here: "collides ps (generateRandomSKU rnd k)"
    using Suc.prems(2) [of 0] by simp
  have "sku_loop rnd ps (k + 7) = Some (generateRandomSKU rnd (k + 7 + 7 * n))"
  proof (rule Suc.IH)
    show "\<not> collides ps (generateRandomSKU rnd (k + 7 + 7 * n))"
      using Suc.prems(1) by (simp add: add.assoc)
    show "collides ps (generateRandomSKU rnd (k + 7 + 7 * j))" if "j < n" for j
      using Suc.prems(2) [of "Suc j"] that by (simp add: add.assoc)
  qed
  with here show ?case
    by (subst sku_loop.simps) (simp add: collides_def add.assoc)
qed

lemma sku_loop_Some_free:
  assumes "sku_loop rnd ps k = Some s"
  shows "\<exists>n. s = generateRandomSKU rnd (k + 7 * n) \<and> \<not> collides ps s"
proof (rule sku_loop.raw_induct
    [where P = "\<lambda>rnd ps k s. \<exists>n. s = generateRandomSKU rnd (k + 7 * n) \<and> \<not> collides ps s",
      OF _ assms])
  fix f :: "rng \<Rightarrow> product list \<Rightarrow> nat \<Rightarrow> string option" and rnd ps k s
  assume IH: "\<And>rnd ps k s. f rnd ps k = Some s \<Longrightarrow>
      \<exists>n. s = generateRandomSKU rnd (k + 7 * n) \<and> \<not> collides ps s"
  assume eq: "(let newSKU = generateRandomSKU rnd k in
      if findOne_sku ps newSKU \<noteq> None then f rnd ps (k + 7) else Some newSKU) = Some s"
  show "\<exists>n. s = generateRandomSKU rnd (k + 7 * n) \<and> \<not> collides ps s"
  proof (cases "findOne_sku ps (generateRandomSKU rnd k) \<noteq> None")
    case True
    with eq have "f rnd ps (k + 7) = Some s" by (simp add: Let_def)
    from IH [OF this] obtain n
      where "s = generateRandomSKU rnd (k + 7 + 7 * n)" "\<not> collides ps s"
      by blast
    then have "s = generateRandomSKU rnd (k + 7 * Suc n) \<and> \<not> collides ps s"
      by (simp add: add.assoc)
    then show ?thesis ..
  next
    case False
    with eq have "s = generateRandomSKU rnd k" by (simp add: Let_def)
    with False have "s = generateRandomSKU rnd (k + 7 * 0) \<and> \<not> collides ps s"
      by (simp add: collides_def)
    then show ?thesis ..
  qed
qed

lemma sku_loop_all_collide:
  assumes "\<And>j. collides ps (generateRandomSKU rnd (k + 7 * j))"
  shows "sku_loop rnd ps k = None"
proof (cases "sku_loop rnd ps k")
  case None
  then show ?thesis .
next
  case (Some s)
  from sku_loop_Some_free [OF this] assms show ?thesis by auto
qed

lemma generateRandomSKU_zero: "generateRandomSKU rnd_always_zero k = ''AAA-0000-AAA''"
  by (simp add: rnd_always_zero_def generateRandomSKU_def randomLetters_def randomNumbers_def
      padStart_def upt_rec eval_chars)

lemma candidate_second_free:
  "candidate rnd_second_free 0 = ''AAA-0000-AAA''"
  "candidate rnd_second_free (Suc 0) = ''NNN-5000-NNN''"
  by (simp_all add: candidate_def rnd_second_free_def generateRandomSKU_def randomLetters_def
      randomNumbers_def padStart_def upt_rec eval_chars)

lemma collides_sku_taken:
  "collides [sku_taken] ''AAA-0000-AAA''" "\<not> collides [sku_taken] ''NNN-5000-NNN''"
  by (simp_all add: collides_def findOne_sku_def sku_taken_def)

text \<open>
  C6, as the claim states it, fails: with the SKU \<open>AAA-0000-AAA\<close> in the store
  and a random source that keeps drawing it, the hook of a product created without a
  SKU never returns, neither with a product nor with an error.
\<close>

theorem sku_generation_never_returns_counterexample:
  "pre_save_sku rnd_always_zero [sku_taken] sku_fresh = None"
proof -
  have "sku_loop rnd_always_zero [sku_taken] 0 = None"
    by (rule sku_loop_all_collide) (simp add: generateRandomSKU_zero collides_sku_taken)
  then show ?thesis
    by (simp add: pre_save_sku_def sku_fresh_def)
qed

lemma collides_iff:
  "collides ps s \<longleftrightarrow> (\<exists>p \<in> set ps. sku p = Some s \<and> \<not> isDeleted p)"
proof
  assume "collides ps s"
  then obtain p where "find (\<lambda>p. sku p = Some s \<and> \<not> isDeleted p) ps = Some p"
    by (auto simp add: collides_def findOne_sku_def)
  then have "p \<in> set ps \<and> sku p = Some s \<and> \<not> isDeleted p"
    by (auto simp add: find_Some_iff)
  then show "\<exists>p \<in> set ps. sku p = Some s \<and> \<not> isDeleted p" by blast
next
  assume "\<exists>p \<in> set ps. sku p = Some s \<and> \<not> isDeleted p"
  then have "find (\<lambda>p. sku p = Some s \<and> \<not> isDeleted p) ps \<noteq> None"
    by (auto simp add: find_None_iff)
  then show "collides ps s" by (simp add: collides_def findOne_sku_def)
qed

text \<open>
  C6, amended. For a product saved without a SKU (none, or the empty string), the hook
  draws candidates until the lookup does not find one. The lookup hides soft-deleted
  products: a candidate collides exactly when a product that is not soft-deleted holds
  it, and a SKU persisted only on soft-deleted products counts as free. When the first
  \<open>n\<close> candidates collide and the next one does not, the hook stores that
  candidate in upper case (after \<open>n + 1\<close> draws, for any \<open>n\<close>); when every
  candidate collides it never returns. There is no retry bound and no error.
\<close>

theorem sku_generation_first_free_or_diverges:
  assumes "sku this = None \<or> sku this = Some []"
  shows "((\<forall>j<n. collides ps (candidate rnd j)) \<and> \<not> collides ps (candidate rnd n) \<longrightarrow>
            pre_save_sku rnd ps this = Some (this\<lparr>sku := Some (toUpperCase (candidate rnd n))\<rparr>))
       \<and> ((\<forall>j. collides ps (candidate rnd j)) \<longrightarrow> pre_save_sku rnd ps this = None)
       \<and> (collides ps s \<longleftrightarrow> (\<exists>p \<in> set ps. sku p = Some s \<and> \<not> isDeleted p))"
proof (intro conjI impI)
  assume a: "(\<forall>j<n. collides ps (candidate rnd j)) \<and> \<not> collides ps (candidate rnd n)"
  have "sku_loop rnd ps 0 = Some (generateRandomSKU rnd (0 + 7 * n))"
    by (rule sku_loop_first_free) (use a in \<open>simp_all add: candidate_def\<close>)
  with assms
  show "pre_save_sku rnd ps this = Some (this\<lparr>sku := Some (toUpperCase (candidate rnd n))\<rparr>)"
    by (auto simp add: pre_save_sku_def candidate_def)
next
  assume a: "\<forall>j. collides ps (candidate rnd j)"
  have "sku_loop rnd ps 0 = None"
    by (rule sku_loop_all_collide) (use a in \<open>simp add: candidate_def\<close>)
  with assms show "pre_save_sku rnd ps this = None"
    by (auto simp add: pre_save_sku_def)
next
  show "collides ps s \<longleftrightarrow> (\<exists>p \<in> set ps. sku p = Some s \<and> \<not> isDeleted p)"
    by (rule collides_iff)
qed

text \<open>
  Three runs: the first candidate is taken and the second is free; every candidate is
  taken; every candidate is persisted, but on a soft-deleted product, and the first is
  accepted.
\<close>

theorem sku_generation_first_free_or_diverges_witness:
  "sku sku_fresh = None
   \<and> collides [sku_taken] (candidate rnd_second_free 0)
   \<and> \<not> collides [sku_taken] (candidate rnd_second_free 1)
   \<and> pre_save_sku rnd_second_free [sku_taken] sku_fresh
       = Some (sku_fresh\<lparr>sku := Some ''NNN-5000-NNN''\<rparr>)
   \<and> pre_save_sku rnd_always_zero [sku_taken] sku_fresh = None
   \<and> sku sku_deleted = Some ''AAA-0000-AAA'' \<and> isDeleted sku_deleted
   \<and> \<not> collides [sku_deleted] ''AAA-0000-AAA''
   \<and> pre_save_sku rnd_always_zero [sku_deleted] sku_fresh
       = Some (sku_fresh\<lparr>sku := Some ''AAA-0000-AAA''\<rparr>)"
proof -
  have h0: "sku sku_fresh = None" by (simp add: sku_fresh_def)
  then have h: "sku sku_fresh = None \<or> sku sku_fresh = Some []" by simp
  have c0: "collides [sku_taken] (candidate rnd_second_free 0)"
    by (simp add: candidate_second_free collides_sku_taken)
  have c1: "\<not> collides [sku_taken] (candidate rnd_second_free 1)"
    by (simp add: candidate_second_free collides_sku_taken)
  have up: "toUpperCase ''NNN-5000-NNN'' = ''NNN-5000-NNN''"
    "toUpperCase ''AAA-0000-AAA'' = ''AAA-0000-AAA''"
    by (simp_all add: toUpperCase_def eval_chars)
  from c0 have all: "\<forall>j<1. collides [sku_taken] (candidate rnd_second_free j)" by simp
  from sku_generation_first_free_or_diverges [OF h, of 1 "[sku_taken]" rnd_second_free] all c1
  have first: "pre_save_sku rnd_second_free [sku_taken] sku_fresh
      = Some (sku_fresh\<lparr>sku := Some (toUpperCase (candidate rnd_second_free 1))\<rparr>)"
    by blast
  have z: "candidate rnd_always_zero j = ''AAA-0000-AAA''" for j
    by (simp add: candidate_def generateRandomSKU_zero)
  have "\<forall>j. collides [sku_taken] (candidate rnd_always_zero j)"
    by (simp add: z collides_sku_taken)
  with sku_generation_first_free_or_diverges [OF h, of 0 "[sku_taken]" rnd_always_zero]
  have never: "pre_save_sku rnd_always_zero [sku_taken] sku_fresh = None"
    by blast
  have d: "sku sku_deleted = Some ''AAA-0000-AAA''" "isDeleted sku_deleted"
    "\<not> collides [sku_deleted] ''AAA-0000-AAA''"
    by (simp_all add: sku_deleted_def sku_taken_def collides_def findOne_sku_def)
  have "(\<forall>j<0. collides [sku_deleted] (candidate rnd_always_zero j))
      \<and> \<not> collides [sku_deleted] (candidate rnd_always_zero 0)"
    by (simp add: z d)
  with sku_generation_first_free_or_diverges [OF h, of 0 "[sku_deleted]" rnd_always_zero]
  have dup: "pre_save_sku rnd_always_zero [sku_deleted] sku_fresh
      = Some (sku_fresh\<lparr>sku := Some (toUpperCase (candidate rnd_always_zero 0))\<rparr>)"
    by blast
  from h0 c0 c1 first never d dup show ?thesis
    by (simp add: candidate_second_free up z)
qed

section \<open>Cart totals\<close>

lemma foldl_add_sum_list:
  "foldl (\<lambda>total item. total + f item) a xs = a + sum_list (map f xs)" for a :: int
  by (induction xs arbitrary: a) simp_all

lemma cart_pre_save_consistent: "totals_consistent (cart_pre_save c)"
  by (simp add: totals_consistent_def cart_pre_save_def foldl_add_sum_list)

lemma cart_save_consistent:
  "cart_save cs c = Inr (cs', c') \<Longrightarrow> totals_consistent c' \<and> cart.items c' = cart.items c"
proof -
  assume "cart_save cs c = Inr (cs', c')"
  then have c': "c' = cart_pre_save c"
    by (auto simp add: cart_save_def Let_def split: if_splits)
  show ?thesis
    unfolding c' by (simp add: cart_pre_save_consistent) (simp add: cart_pre_save_def)
qed

lemma cart_operations_totals_consistent:
  "addtoCart cs userId productId qty price = Inr (cs', c') \<Longrightarrow> totals_consistent c'"
  "updateCart cs userId productId qty = Inr (cs', c') \<Longrightarrow> totals_consistent c'"
  "removeFromCart cs userId productId = Inr (cs', c') \<Longrightarrow> totals_consistent c'"
  "clearCart cs userId = Inr (cs', c') \<Longrightarrow> totals_consistent c'"
  by (auto simp add: addtoCart_def updateCart_def removeFromCart_def clearCart_def Let_def
      split: if_splits option.splits sum.splits dest: cart_save_consistent)

section \<open>Order creation\<close>

lemma address_demo_valid: "shippingAddress_valid address_demo"
  by (simp add: shippingAddress_valid_def address_demo_def required_string_def trim_def
      isWhiteSpace_def)

lemma snapshot_demo:
  "snapshot_cart [stock_demo] (cart.items cart_u1)
     = Inr [\<lparr>product = ''p1'', quantity = 2, unitPrice = Some 10, totalPrice = Some 20\<rparr>]"
  by (simp add: cart_u1_def populate_product_def stock_demo_def)

lemma Order_create_demo:
  "Order_create 1700000000000 g ''o1'' [] ''u1'' ''ORD-1700000000000''
      [\<lparr>product = ''p1'', quantity = 2, unitPrice = Some 10, totalPrice = Some 20\<rparr>]
      address_demo (Some ''COD'') (Some 20) None
   = Inr ([order_first], order_first)"
  by (simp add: Order_create_def address_demo_valid orderItem_valid_def PAYMENT_METHODS_def
      maxlength_def order_pre_save_def order_first_def Let_def)

lemma createOrder_try_first:
  "createOrder_try 1700000000000 g ''o1'' shop_db (Some ''u1'') address_demo (Some ''COD'')
      (Some 20) None None None
   = Inr (shop_after_first, ''o1'', ''ORD-1700000000000'')"
proof -
  have c: "Cart_findOne (carts shop_db) ''u1'' = Some cart_u1"
    by (simp add: Cart_findOne_def shop_db_def cart_u1_def)
  have ne: "cart.items cart_u1 \<noteq> []" by (simp add: cart_u1_def)
  have cl: "Cart_findOneAndUpdate_items ''u1'' [] (carts shop_db) = [cart_u1_after, cart_u2]"
    by (simp add: shop_db_def cart_u1_def cart_u1_after_def)
  have p: "products shop_db = [stock_demo]" "orders shop_db = []"
    by (simp_all add: shop_db_def)
  have r: "shop_db\<lparr>orders := [order_first], carts := [cart_u1_after, cart_u2]\<rparr> = shop_after_first"
    by (simp add: shop_db_def shop_after_first_def)
  have f: "o_id order_first = ''o1''" "orderNumber order_first = ''ORD-1700000000000''"
    by (simp_all add: order_first_def)
  show ?thesis
    by (simp add: createOrder_try_def c ne cl p snapshot_demo toString_demo Order_create_demo r f)
qed

lemma createOrder_first:
  "createOrder 1700000000000 g ''o1'' shop_db (Some ''u1'') address_demo (Some ''COD'')
      (Some 20) None None None
   = Inr (shop_after_first, ''o1'', ''ORD-1700000000000'')"
  by (simp add: createOrder_def createOrder_try_first)

lemma createOrder_try_second:
  "createOrder_try 1700000000000 g ''o2'' shop_after_first (Some ''u2'') address_demo
      (Some ''COD'') (Some 10) None None None
   = Inl DuplicateKey"
proof -
  have c: "Cart_findOne (carts shop_after_first) ''u2'' = Some cart_u2"
    by (simp add: Cart_findOne_def shop_after_first_def cart_u1_after_def cart_u2_def)
  have ne: "cart.items cart_u2 \<noteq> []" by (simp add: cart_u2_def)
  have s: "snapshot_cart [stock_demo] (cart.items cart_u2)
     = Inr [\<lparr>product = ''p1'', quantity = 1, unitPrice = Some 10, totalPrice = Some 10\<rparr>]"
    by (simp add: cart_u2_def populate_product_def stock_demo_def)
  have p: "products shop_after_first = [stock_demo]" "orders shop_after_first = [order_first]"
    by (simp_all add: shop_after_first_def)
  have oc: "Order_create 1700000000000 g ''o2'' [order_first] ''u2'' ''ORD-1700000000000''
      [\<lparr>product = ''p1'', quantity = 1, unitPrice = Some 10, totalPrice = Some 10\<rparr>]
      address_demo (Some ''COD'') (Some 10) None = Inl DuplicateKey"
    by (simp add: Order_create_def address_demo_valid orderItem_valid_def PAYMENT_METHODS_def
      maxlength_def order_pre_save_def order_first_def Let_def)
  show ?thesis
    by (simp add: createOrder_try_def c ne p s toString_demo oc)
qed

lemma clearCart_demo:
  "clearCart [cart_u1, cart_u2] ''u1''
     = Inr ([\<lparr>cart.user = ''u1'', cart.items = [], cart.totalPrice = 0, totalItems = 0\<rparr>, cart_u2],
            \<lparr>cart.user = ''u1'', cart.items = [], cart.totalPrice = 0, totalItems = 0\<rparr>)"
  by (simp add: clearCart_def Cart_findOne_def cart_u1_def cart_save_def cart_pre_save_def
      Let_def)

text \<open>
  C1. The four cart operations save the cart, so their result has consistent totals
  (\<open>cart_operations_totals_consistent\<close>). The cart-clearing step of order creation
  does not: after the first user's checkout the cart has no lines, and still
  \<open>totalItems = 2\<close> and \<open>totalPrice = 16\<close>.
\<close>

theorem createOrder_leaves_cart_totals_stale:
  "createOrder 1700000000000 ''ORD202311140042'' ''o1'' shop_db (Some ''u1'') address_demo
      (Some ''COD'') (Some 20) None None None
     = Inr (shop_after_first, ''o1'', ''ORD-1700000000000'')
   \<and> Cart_findOne (carts shop_after_first) ''u1''
     = Some \<lparr>cart.user = ''u1'', cart.items = [], cart.totalPrice = 16, totalItems = 2\<rparr>
   \<and> \<not> totals_consistent
        \<lparr>cart.user = ''u1'', cart.items = [], cart.totalPrice = 16, totalItems = 2\<rparr>"
  by (simp add: createOrder_first Cart_findOne_def shop_after_first_def cart_u1_after_def
      totals_consistent_def)

lemma snapshot_cart_lines:
  "snapshot_cart ps ls = Inr its \<Longrightarrow>
   list_all2 (\<lambda>line item. \<exists>p. populate_product ps (cartItem.product line) = Some p
        \<and> orderItem.product item = p_id p
        \<and> orderItem.quantity item = cartItem.quantity line
        \<and> unitPrice item = sellingPrice p
        \<and> orderItem.totalPrice item
            = map_option (\<lambda>price. price * cartItem.quantity line) (sellingPrice p)) ls its"
proof (induction ls arbitrary: its)
  case Nil
  then show ?case by simp
next
  case (Cons line rest)
  from Cons.prems obtain p lines where
    p: "populate_product ps (cartItem.product line) = Some p" and
    r: "snapshot_cart ps rest = Inr lines" and
    i: "its = \<lparr>orderItem.product = p_id p, orderItem.quantity = cartItem.quantity line,
           unitPrice = sellingPrice p,
           orderItem.totalPrice = map_option (\<lambda>price. price * cartItem.quantity line)
             (sellingPrice p)\<rparr> # lines"
    by (auto split: option.splits sum.splits)
  from Cons.IH [OF r] p show ?case unfolding i by simp
qed

lemma populate_product_id: "populate_product ps i = Some p \<Longrightarrow> p_id p = i"
  by (auto simp add: populate_product_def find_Some_iff)

lemma Order_create_success:
  assumes "Order_create now g newId os userId number lines addr method amount note = Inr (os', ord)"
  shows "os' = os @ [ord] \<and> order.items ord = lines \<and> orderNumber ord = number
     \<and> o_id ord = newId \<and> list_all orderItem_valid lines
     \<and> number \<notin> set (map orderNumber os)"
  using assms
  by (auto simp add: Order_create_def Let_def order_pre_save_def
      split: option.splits if_splits)

lemma createOrder_Inr:
  "createOrder now g newId st userOpt addr method amount note bodyItems fromCart = Inr r
   \<longleftrightarrow> createOrder_try now g newId st userOpt addr method amount note bodyItems fromCart = Inr r"
  by (simp add: createOrder_def split: sum.splits error.splits)

lemma createOrder_try_success:
  assumes "createOrder_try now g newId st userOpt addr method amount note bodyItems fromCart
      = Inr (st', ident, number)"
  shows "\<exists>userId lines ord. userOpt = Some userId
     \<and> Order_create now g newId (orders st) userId (''ORD-'' @ toString (nat now)) lines
          addr method amount note = Inr (orders st @ [ord], ord)
     \<and> orders st' = orders st @ [ord] \<and> ident = o_id ord \<and> number = orderNumber ord
     \<and> (fromCart = Some False \<or>
          (\<exists>cart. Cart_findOne (carts st) userId = Some cart
             \<and> snapshot_cart (products st) (cart.items cart) = Inr lines
             \<and> carts st' = Cart_findOneAndUpdate_items userId [] (carts st)))"
proof -
  from assms obtain userId where u: "userOpt = Some userId" "userId \<noteq> []"
    by (auto simp add: createOrder_try_def split: option.splits if_splits)
  define useCart where "useCart = (case fromCart of None \<Rightarrow> True | Some b \<Rightarrow> b)"
  define src where "src =
    (if useCart then
       (case Cart_findOne (carts st) userId of
          None \<Rightarrow> Inl (ApiError 400 ''Cart is empty'')
        | Some cart \<Rightarrow>
            if cart.items cart = [] then Inl (ApiError 400 ''Cart is empty'')
            else snapshot_cart (products st) (cart.items cart))
     else
       (case bodyItems of
          None \<Rightarrow> Inl (ApiError 400 ''No items provided'')
        | Some bs \<Rightarrow>
            if bs = [] then Inl (ApiError 400 ''No items provided'')
            else Inr (snapshot_body bs)))"
  from assms u have eq: "(case src of
       Inl err \<Rightarrow> Inl err
     | Inr lines \<Rightarrow>
         (case Order_create now g newId (orders st) userId
                 (''ORD-'' @ toString (nat now)) lines addr method amount note of
            Inl err \<Rightarrow> Inl err
          | Inr (orders', ord) \<Rightarrow>
              Inr (st\<lparr>orders := orders',
                      carts := (if useCart
                                then Cart_findOneAndUpdate_items userId [] (carts st)
                                else carts st)\<rparr>,
                   o_id ord, orderNumber ord))) = Inr (st', ident, number)"
    unfolding src_def useCart_def createOrder_try_def Let_def by simp
  then obtain lines where l: "src = Inr lines"
    by (cases src) simp_all
  from eq l obtain os' ord where
    oc: "Order_create now g newId (orders st) userId (''ORD-'' @ toString (nat now)) lines
           addr method amount note = Inr (os', ord)"
    by (auto split: sum.splits)
  from Order_create_success [OF oc] have os': "os' = orders st @ [ord]" by simp
  from eq l oc have st': "st' = st\<lparr>orders := os',
        carts := (if useCart then Cart_findOneAndUpdate_items userId [] (carts st)
                  else carts st)\<rparr>" "ident = o_id ord" "number = orderNumber ord"
    by simp_all
  have cartpart: "fromCart = Some False \<or>
      (\<exists>cart. Cart_findOne (carts st) userId = Some cart
         \<and> snapshot_cart (products st) (cart.items cart) = Inr lines
         \<and> carts st' = Cart_findOneAndUpdate_items userId [] (carts st))"
  proof (cases "fromCart = Some False")
    case True
    then show ?thesis by simp
  next
    case False
    then have uc: "useCart" by (cases fromCart) (simp_all add: useCart_def)
    with l obtain cart where "Cart_findOne (carts st) userId = Some cart"
      "snapshot_cart (products st) (cart.items cart) = Inr lines"
      by (auto simp add: src_def split: option.splits if_splits)
    with uc st' show ?thesis by simp
  qed
  from u oc os' st' cartpart show ?thesis by auto
qed

text \<open>
  C4. When \<^verbatim>\<open>createOrder\<close> succeeds from the cart, the new order has one item per cart
  line, in order; each item carries the line's product and quantity, its
  \<open>unitPrice\<close> is the selling price the catalog holds for that product at that
  moment, and its \<open>totalPrice\<close> is that price times the quantity. The line's
  \<open>priceAtAddTime\<close> plays no part.
\<close>

theorem createOrder_snapshots_current_selling_price:
  assumes "createOrder now g newId st userOpt addr method amount note bodyItems fromCart
      = Inr (st', ident, number)"
    and "fromCart \<noteq> Some False"
  shows "\<exists>userId cart ord. userOpt = Some userId
     \<and> Cart_findOne (carts st) userId = Some cart
     \<and> orders st' = orders st @ [ord] \<and> o_id ord = ident
     \<and> list_all2 (\<lambda>line item. \<exists>p price.
            populate_product (products st) (cartItem.product line) = Some p
          \<and> p_id p = cartItem.product line
          \<and> sellingPrice p = Some price
          \<and> unitPrice item = Some price
          \<and> orderItem.totalPrice item = Some (price * cartItem.quantity line)
          \<and> orderItem.quantity item = cartItem.quantity line
          \<and> orderItem.product item = cartItem.product line)
        (cart.items cart) (order.items ord)"
proof -
  from assms(1) have "createOrder_try now g newId st userOpt addr method amount note bodyItems
      fromCart = Inr (st', ident, number)"
    by (simp add: createOrder_Inr)
  from createOrder_try_success [OF this] assms(2) obtain userId lines ord cart where
    u: "userOpt = Some userId" and
    oc: "Order_create now g newId (orders st) userId (''ORD-'' @ toString (nat now)) lines
          addr method amount note = Inr (orders st @ [ord], ord)" and
    o: "orders st' = orders st @ [ord]" "ident = o_id ord" and
    c: "Cart_findOne (carts st) userId = Some cart" and
    s: "snapshot_cart (products st) (cart.items cart) = Inr lines"
    by blast
  from Order_create_success [OF oc] have
    it: "order.items ord = lines" and v: "list_all orderItem_valid lines"
    by simp_all
  have "list_all2 (\<lambda>line item. \<exists>p price.
            populate_product (products st) (cartItem.product line) = Some p
          \<and> p_id p = cartItem.product line
          \<and> sellingPrice p = Some price
          \<and> unitPrice item = Some price
          \<and> orderItem.totalPrice item = Some (price * cartItem.quantity line)
          \<and> orderItem.quantity item = cartItem.quantity line
          \<and> orderItem.product item = cartItem.product line)
        (cart.items cart) lines"
  proof (rule list.rel_mono_strong [OF snapshot_cart_lines [OF s]])
    fix line :: cartItem and item :: orderItem
    assume "line \<in> set (cart.items cart)" and m: "item \<in> set lines"
    assume a: "\<exists>p. populate_product (products st) (cartItem.product line) = Some p
        \<and> orderItem.product item = p_id p
        \<and> orderItem.quantity item = cartItem.quantity line
        \<and> unitPrice item = sellingPrice p
        \<and> orderItem.totalPrice item
            = map_option (\<lambda>price. price * cartItem.quantity line) (sellingPrice p)"
    from v m have "orderItem_valid item" by (simp add: list_all_iff)
    then obtain price where pr: "unitPrice item = Some price"
      by (auto simp add: orderItem_valid_def split: option.splits)
    from a obtain p where p: "populate_product (products st) (cartItem.product line) = Some p"
      "orderItem.product item = p_id p" "orderItem.quantity item = cartItem.quantity line"
      "unitPrice item = sellingPrice p"
      "orderItem.totalPrice item
         = map_option (\<lambda>price. price * cartItem.quantity line) (sellingPrice p)"
      by blast
    from p(4) pr have sp: "sellingPrice p = Some price" by simp
    with p(5) have tp: "orderItem.totalPrice item = Some (price * cartItem.quantity line)"
      by simp
    from p(1,2,3) pr sp tp populate_product_id [OF p(1)]
    have "populate_product (products st) (cartItem.product line) = Some p
          \<and> p_id p = cartItem.product line
          \<and> sellingPrice p = Some price
          \<and> unitPrice item = Some price
          \<and> orderItem.totalPrice item = Some (price * cartItem.quantity line)
          \<and> orderItem.quantity item = cartItem.quantity line
          \<and> orderItem.product item = cartItem.product line"
      by simp
    then show "\<exists>p price.
            populate_product (products st) (cartItem.product line) = Some p
          \<and> p_id p = cartItem.product line
          \<and> sellingPrice p = Some price
          \<and> unitPrice item = Some price
          \<and> orderItem.totalPrice item = Some (price * cartItem.quantity line)
          \<and> orderItem.quantity item = cartItem.quantity line
          \<and> orderItem.product item = cartItem.product line"
      by blast
  qed
  with u c o it show ?thesis by auto
qed

theorem createOrder_snapshots_current_selling_price_witness:
  "createOrder 1700000000000 ''ORD202311140042'' ''o1'' shop_db (Some ''u1'') address_demo
      (Some ''COD'') (Some 20) None None None
     = Inr (shop_after_first, ''o1'', ''ORD-1700000000000'')
   \<and> map priceAtAddTime (cart.items cart_u1) = [8]
   \<and> map unitPrice (order.items order_first) = [Some 10]
   \<and> map orderItem.totalPrice (order.items order_first) = [Some (10 * 2)]
   \<and> (\<exists>userId cart ord. Some ''u1'' = Some userId
       \<and> Cart_findOne (carts shop_db) userId = Some cart
       \<and> orders shop_after_first = orders shop_db @ [ord] \<and> o_id ord = ''o1''
       \<and> list_all2 (\<lambda>line item. \<exists>p price.
              populate_product (products shop_db) (cartItem.product line) = Some p
            \<and> p_id p = cartItem.product line
            \<and> sellingPrice p = Some price
            \<and> unitPrice item = Some price
            \<and> orderItem.totalPrice item = Some (price * cartItem.quantity line)
            \<and> orderItem.quantity item = cartItem.quantity line
            \<and> orderItem.product item = cartItem.product line)
          (cart.items cart) (order.items ord))"
proof -
  have e: "createOrder 1700000000000 ''ORD202311140042'' ''o1'' shop_db (Some ''u1'')
      address_demo (Some ''COD'') (Some 20) None None None
     = Inr (shop_after_first, ''o1'', ''ORD-1700000000000'')"
    by (rule createOrder_first)
  have n: "(None :: bool option) \<noteq> Some False" by simp
  have d: "map priceAtAddTime (cart.items cart_u1) = [8]"
    "map unitPrice (order.items order_first) = [Some 10]"
    "map orderItem.totalPrice (order.items order_first) = [Some (10 * 2)]"
    by (simp_all add: cart_u1_def order_first_def)
  from createOrder_snapshots_current_selling_price [OF e n] e d show ?thesis
    by blast
qed

text \<open>
  What \<^verbatim>\<open>createOrder\<close> does generate: the order number of an order it creates is
  \<open>ORD-\<close> followed by the decimal digits of the millisecond timestamp, nothing
  else. The order is appended to the collection only when the unique index does not
  already hold that number.
\<close>

lemma createOrder_orderNumber_is_timestamp:
  assumes "createOrder now g newId st userOpt addr method amount note bodyItems fromCart
      = Inr (st', ident, number)"
  shows "number = ''ORD-'' @ toString (nat now)
     \<and> (\<exists>ord. orders st' = orders st @ [ord] \<and> orderNumber ord = number \<and> o_id ord = ident)
     \<and> number \<notin> set (map orderNumber (orders st))
     \<and> (distinct (map orderNumber (orders st)) \<longrightarrow> distinct (map orderNumber (orders st')))"
proof -
  from assms have "createOrder_try now g newId st userOpt addr method amount note bodyItems
      fromCart = Inr (st', ident, number)"
    by (simp add: createOrder_Inr)
  from createOrder_try_success [OF this] obtain userId lines ord where
    oc: "Order_create now g newId (orders st) userId (''ORD-'' @ toString (nat now)) lines
          addr method amount note = Inr (orders st @ [ord], ord)" and
    o: "orders st' = orders st @ [ord]" "ident = o_id ord" "number = orderNumber ord"
    by blast
  from Order_create_success [OF oc] have
    n: "orderNumber ord = ''ORD-'' @ toString (nat now)"
      "''ORD-'' @ toString (nat now) \<notin> set (map orderNumber (orders st))"
    by simp_all
  from o n show ?thesis by auto
qed

lemma createOrder_second:
  "createOrder 1700000000000 g ''o2'' shop_after_first (Some ''u2'') address_demo
      (Some ''COD'') (Some 10) None None None
   = Inl (ApiError 500 ''Internal Server Error'')"
  by (simp add: createOrder_def createOrder_try_second)

lemma pre_save_generates_when_missing:
  "orderNumber (order_pre_save 1700000000000 ''ORD202311147315'' True False False
      (order_first\<lparr>orderNumber := []\<rparr>)) = ''ORD202311147315''"
  by (simp add: order_pre_save_def Let_def order_first_def)

text \<open>
  C8. Two checkouts in the same millisecond: the first order gets the number
  \<open>ORD-1700000000000\<close>, the timestamp with no random suffix; the second call
  generates the same number, the insert is refused as a duplicate key and the request
  is answered with 500. The generator of the pre-save hook, which does append a random
  suffix, is not reached, because the controller always supplies a number.
\<close>

theorem createOrder_same_millisecond_duplicate:
  "createOrder 1700000000000 ''ORD202311140042'' ''o1'' shop_db (Some ''u1'') address_demo
      (Some ''COD'') (Some 20) None None None
     = Inr (shop_after_first, ''o1'', ''ORD-1700000000000'')
   \<and> ''ORD-1700000000000'' = ''ORD-'' @ toString 1700000000000
   \<and> createOrder_try 1700000000000 ''ORD202311147315'' ''o2'' shop_after_first (Some ''u2'')
        address_demo (Some ''COD'') (Some 10) None None None
     = Inl DuplicateKey
   \<and> createOrder 1700000000000 ''ORD202311147315'' ''o2'' shop_after_first (Some ''u2'')
        address_demo (Some ''COD'') (Some 10) None None None
     = Inl (ApiError 500 ''Internal Server Error'')"
  by (simp add: createOrder_first createOrder_try_second createOrder_second toString_demo)

section \<open>Order status\<close>

lemma find_store_order:
  "find (\<lambda>d. o_id d = i) os = Some ord \<Longrightarrow> o_id this = i \<Longrightarrow>
   find (\<lambda>d. o_id d = i) (store_order this os) = Some this"
  by (induction os) (auto split: if_splits)

lemma find_store_order_user:
  "distinct (map o_id os) \<Longrightarrow> find (\<lambda>d. o_id d = i \<and> user d = u) os = Some ord \<Longrightarrow>
   o_id this = i \<Longrightarrow> user this = u \<Longrightarrow>
   find (\<lambda>d. o_id d = i \<and> user d = u) (store_order this os) = Some this"
proof (induction os)
  case Nil
  then show ?case by simp
next
  case (Cons d ds)
  show ?case
  proof (cases "o_id d = i")
    case True
    have "user d = u"
    proof (rule ccontr)
      assume "user d \<noteq> u"
      with Cons.prems(2) have "find (\<lambda>d. o_id d = i \<and> user d = u) ds = Some ord" by simp
      then have "ord \<in> set ds" "o_id ord = i" by (auto simp add: find_Some_iff)
      then have "i \<in> o_id ` set ds" by blast
      with Cons.prems(1) True show False by simp
    qed
    with True Cons.prems show ?thesis by simp
  next
    case False
    with Cons show ?thesis by simp
  qed
qed

lemma order_first_valid: "order_valid order_first"
  by (simp add: order_valid_def order_first_def address_demo_valid orderItem_valid_def
      PAYMENT_METHODS_def PAYMENT_STATUS_def ORDER_STATUS_def maxlength_def)

lemma order_old_valid: "order_valid order_old"
  using order_first_valid by (simp add: order_valid_def order_old_def ORDER_STATUS_def)

lemma order_valid_pre_save:
  "order_valid (order_pre_save now g False statusModified paymentModified this) = order_valid this"
  by (simp add: order_valid_def order_pre_save_def Let_def)

lemma order_valid_cancel:
  "order_valid ord \<Longrightarrow>
   order_valid (ord\<lparr>orderStatus := ''cancelled'', cancelReason := reason\<rparr>) = maxlength 200 reason"
  by (simp add: order_valid_def ORDER_STATUS_def)

lemma order_save_cancel:
  assumes "orderStatus ord \<in> {''processing'', ''confirmed''}" and "order_valid ord"
  shows "order_save now os ord (ord\<lparr>orderStatus := ''cancelled'', cancelReason := reason\<rparr>)
    = (if maxlength 200 reason
       then Inr (store_order (ord\<lparr>orderStatus := ''cancelled'', cancelReason := reason\<rparr>) os,
                 ord\<lparr>orderStatus := ''cancelled'', cancelReason := reason\<rparr>)
       else Inl ValidationError)"
  using assms(1)
  by (auto simp add: order_save_def order_valid_cancel [OF assms(2)] order_pre_save_def Let_def)

text \<open>
  C3, amended. For a stored order that \<^verbatim>\<open>cancelOrder\<close> finds (a stored order passes the
  order schema): when its status is processing or confirmed and the cancel reason has
  at most 200 characters, the call succeeds, the order it returns has status cancelled
  and that reason, and it is the order then stored; when the status is processing or
  confirmed and the reason is longer, the save is refused with a validation error;
  for every other status the call fails with the 400 error "Order cannot be cancelled
  at this stage", whatever the reason.
\<close>

theorem cancelOrder_gate:
  assumes "Order_findOne os orderId userId = Some ord" and "order_valid ord"
  shows "(orderStatus ord \<in> {''processing'', ''confirmed''} \<and> maxlength 200 reason \<longrightarrow>
            (\<exists>os'. cancelOrder now os orderId userId reason
                = Inr (os', ord\<lparr>orderStatus := ''cancelled'', cancelReason := reason\<rparr>)
              \<and> (distinct (map o_id os) \<longrightarrow>
                   Order_findOne os' orderId userId
                     = Some (ord\<lparr>orderStatus := ''cancelled'', cancelReason := reason\<rparr>))))
     \<and> (orderStatus ord \<in> {''processing'', ''confirmed''} \<and> \<not> maxlength 200 reason \<longrightarrow>
            cancelOrder now os orderId userId reason = Inl ValidationError)
     \<and> (orderStatus ord \<notin> {''processing'', ''confirmed''} \<longrightarrow>
            cancelOrder now os orderId userId reason
              = Inl (ApiError 400 ''Order cannot be cancelled at this stage''))"
proof (intro conjI impI)
  assume a: "orderStatus ord \<in> {''processing'', ''confirmed''} \<and> maxlength 200 reason"
  let ?saved = "ord\<lparr>orderStatus := ''cancelled'', cancelReason := reason\<rparr>"
  from a have cc: "canBeCancelled ord" by (simp add: canBeCancelled_def)
  from a have st: "orderStatus ord \<in> {''processing'', ''confirmed''}" by simp
  from a have ok: "maxlength 200 reason" by simp
  have run: "cancelOrder now os orderId userId reason = Inr (store_order ?saved os, ?saved)"
    using assms(1) cc ok by (simp add: cancelOrder_def order_save_cancel [OF st assms(2)])
  from assms(1) have id: "o_id ord = orderId" "user ord = userId"
    by (auto simp add: Order_findOne_def find_Some_iff)
  have "Order_findOne (store_order ?saved os) orderId userId = Some ?saved"
    if "distinct (map o_id os)"
    unfolding Order_findOne_def
    by (rule find_store_order_user [OF that assms(1) [unfolded Order_findOne_def]])
      (simp_all add: id)
  with run show "\<exists>os'. cancelOrder now os orderId userId reason = Inr (os', ?saved)
      \<and> (distinct (map o_id os) \<longrightarrow> Order_findOne os' orderId userId = Some ?saved)"
    by blast
next
  assume a: "orderStatus ord \<in> {''processing'', ''confirmed''} \<and> \<not> maxlength 200 reason"
  then have cc: "canBeCancelled ord" by (simp add: canBeCancelled_def)
  from a have st: "orderStatus ord \<in> {''processing'', ''confirmed''}" by simp
  from a assms(1) cc show "cancelOrder now os orderId userId reason = Inl ValidationError"
    by (simp add: cancelOrder_def order_save_cancel [OF st assms(2)])
next
  assume "orderStatus ord \<notin> {''processing'', ''confirmed''}"
  then have "\<not> canBeCancelled ord" by (simp add: canBeCancelled_def)
  with assms(1) show "cancelOrder now os orderId userId reason
      = Inl (ApiError 400 ''Order cannot be cancelled at this stage'')"
    by (simp add: cancelOrder_def)
qed

lemma findOne_demo: "Order_findOne [order_first] ''o1'' ''u1'' = Some order_first"
  by (simp add: Order_findOne_def order_first_def)

lemma findOne_old: "Order_findOne [order_old] ''o0'' ''u1'' = Some order_old"
  by (simp add: Order_findOne_def order_old_def order_first_def)

theorem cancelOrder_gate_witness:
  "Order_findOne [order_first] ''o1'' ''u1'' = Some order_first
   \<and> order_valid order_first
   \<and> orderStatus order_first = ''processing''
   \<and> cancelOrder 1700000005000 [order_first] ''o1'' ''u1'' (Some ''ordered twice'')
       = Inr ([order_first\<lparr>orderStatus := ''cancelled'', cancelReason := Some ''ordered twice''\<rparr>],
              order_first\<lparr>orderStatus := ''cancelled'', cancelReason := Some ''ordered twice''\<rparr>)
   \<and> order_valid order_old
   \<and> orderStatus order_old = ''shipped''
   \<and> cancelOrder 1700000005000 [order_old] ''o0'' ''u1'' (Some ''ordered twice'')
       = Inl (ApiError 400 ''Order cannot be cancelled at this stage'')"
proof -
  have s1: "orderStatus order_first \<in> {''processing'', ''confirmed''}"
    "maxlength 200 (Some ''ordered twice'')" "orderStatus order_first = ''processing''"
    by (simp_all add: order_first_def maxlength_def)
  have s2: "orderStatus order_old \<notin> {''processing'', ''confirmed''}"
    "orderStatus order_old = ''shipped''"
    by (simp_all add: order_old_def)
  from cancelOrder_gate [OF findOne_demo order_first_valid, of "Some ''ordered twice''"
      1700000005000] s1
  obtain os' where r: "cancelOrder 1700000005000 [order_first] ''o1'' ''u1'' (Some ''ordered twice'')
      = Inr (os', order_first\<lparr>orderStatus := ''cancelled'', cancelReason := Some ''ordered twice''\<rparr>)"
    by blast
  have os': "os' = [order_first\<lparr>orderStatus := ''cancelled'', cancelReason := Some ''ordered twice''\<rparr>]"
    using r by (simp add: cancelOrder_def findOne_demo canBeCancelled_def s1
        order_save_cancel [OF s1(1) order_first_valid])
  from cancelOrder_gate [OF findOne_old order_old_valid, of "Some ''ordered twice''"
      1700000005000] s2
  have "cancelOrder 1700000005000 [order_old] ''o0'' ''u1'' (Some ''ordered twice'')
       = Inl (ApiError 400 ''Order cannot be cancelled at this stage'')"
    by blast
  with r os' s1 s2 findOne_demo order_first_valid order_old_valid show ?thesis by simp
qed

text \<open>
  C3, as the claim states it, fails: a stored processing order is not cancelled when
  the reason has 201 characters.
\<close>

theorem cancelOrder_long_reason_counterexample:
  "Order_findOne [order_first] ''o1'' ''u1'' = Some order_first
   \<and> order_valid order_first
   \<and> orderStatus order_first = ''processing''
   \<and> cancelOrder 1700000005000 [order_first] ''o1'' ''u1'' (Some (replicate 201 (CHR ''x'')))
       = Inl ValidationError"
proof -
  have st: "orderStatus order_first \<in> {''processing'', ''confirmed''}"
    by (simp add: order_first_def)
  have "cancelOrder 1700000005000 [order_first] ''o1'' ''u1'' (Some (replicate 201 (CHR ''x'')))
       = Inl ValidationError"
    using st by (simp add: cancelOrder_def findOne_demo canBeCancelled_def
        order_save_cancel [OF st order_first_valid] maxlength_def)
  with findOne_demo order_first_valid show ?thesis by (simp add: order_first_def)
qed

lemma assigned_fields:
  "orderStatus (assigned ord s t e) = s"
  "cancelReason (assigned ord s t e) = cancelReason ord"
  "paymentStatus (assigned ord s t e) = paymentStatus ord"
  "deliveredAt (assigned ord s t e) = deliveredAt ord"
  "isDelivered (assigned ord s t e) = isDelivered ord"
  "o_id (assigned ord s t e) = o_id ord"
  "orderNumber (assigned ord s t e) = orderNumber ord"
  by (simp_all add: assigned_def Let_def split: option.splits)

lemma order_valid_assigned:
  "order_valid ord \<Longrightarrow> s \<in> set ORDER_STATUS \<Longrightarrow> order_valid (assigned ord s t e)"
  by (simp add: order_valid_def assigned_def Let_def split: option.splits)

lemma updateOrderStatus_assigned:
  "updateOrderStatus now os ident newStatus tracking estimated =
     (if newStatus \<notin> set ORDER_STATUS then Inl (ApiError 400 ''Invalid order status'')
      else case Order_findById os ident of
        None \<Rightarrow> Inl (ApiError 404 ''Order not found'')
      | Some ord \<Rightarrow> order_save now os ord (assigned ord newStatus tracking estimated))"
  by (simp add: updateOrderStatus_def assigned_def Let_def split: option.splits)

text \<open>
  What one call of \<^verbatim>\<open>updateOrderStatus\<close> with an enumerated status does to a stored
  order: \<open>deliveredAt\<close> is written only by a call that moves the order to
  "delivered" from another status while \<open>deliveredAt\<close> is not set.
\<close>

lemma updateOrderStatus_success:
  assumes "Order_findById os ident = Some ord" and "order_valid ord"
    and "s \<in> set ORDER_STATUS"
  shows "\<exists>saved. updateOrderStatus now os ident s tracking estimated
        = Inr (store_order saved os, saved)
     \<and> Order_findById (store_order saved os) ident = Some saved
     \<and> order_valid saved
     \<and> orderStatus saved = s
     \<and> isDelivered saved
         = (isDelivered ord \<or> (s = ''delivered'' \<and> orderStatus ord \<noteq> ''delivered''))
     \<and> deliveredAt saved =
         (if s = ''delivered'' \<and> orderStatus ord \<noteq> ''delivered'' \<and> deliveredAt ord = None
          then Some now else deliveredAt ord)"
proof -
  let ?a = "assigned ord s tracking estimated"
  let ?saved = "order_pre_save now [] False (orderStatus ?a \<noteq> orderStatus ord)
      (paymentStatus ?a \<noteq> paymentStatus ord) ?a"
  from assms(1) have id: "o_id ord = ident"
    by (auto simp add: Order_findById_def find_Some_iff)
  have va: "order_valid ?a" by (rule order_valid_assigned [OF assms(2,3)])
  have run: "updateOrderStatus now os ident s tracking estimated
      = Inr (store_order ?saved os, ?saved)"
    using assms(1,3) va
    by (simp add: updateOrderStatus_assigned order_save_def Let_def)
  have vs: "order_valid ?saved" using va by (simp add: order_valid_pre_save)
  have f: "o_id ?saved = ident" "orderStatus ?saved = s"
    "isDelivered ?saved
       = (isDelivered ord \<or> (s = ''delivered'' \<and> orderStatus ord \<noteq> ''delivered''))"
    "deliveredAt ?saved =
       (if s = ''delivered'' \<and> orderStatus ord \<noteq> ''delivered'' \<and> deliveredAt ord = None
        then Some now else deliveredAt ord)"
    by (auto simp add: order_pre_save_def assigned_fields Let_def id)
  have l: "Order_findById (store_order ?saved os) ident = Some ?saved"
    unfolding Order_findById_def
    by (rule find_store_order [OF assms(1) [unfolded Order_findById_def] f(1)])
  from run l vs f(2,3,4) show ?thesis by blast
qed

text \<open>
  C9. For a stored order that \<^verbatim>\<open>updateOrderStatus\<close> finds (a stored order passes the
  order schema), the call with "delivered" succeeds. When the order was not delivered
  before, \<open>isDelivered\<close> becomes true, and \<open>deliveredAt\<close> becomes the current time
  when it was not set; a \<open>deliveredAt\<close> that is already set is kept, also when the
  order comes back to "delivered" from another status. A second call with
  "delivered", at any later time, leaves \<open>deliveredAt\<close> and \<open>isDelivered\<close> as the
  first call left them, and so does a call with "returned" followed by a call with
  "delivered".
\<close>

theorem updateOrderStatus_delivered_sets_deliveredAt_once:
  assumes "Order_findById os ident = Some ord" and "order_valid ord"
  shows "\<exists>os1 ord1. updateOrderStatus now1 os ident ''delivered'' tracking estimated
        = Inr (os1, ord1)
     \<and> Order_findById os1 ident = Some ord1
     \<and> orderStatus ord1 = ''delivered''
     \<and> (orderStatus ord \<noteq> ''delivered'' \<longrightarrow> isDelivered ord1)
     \<and> (orderStatus ord \<noteq> ''delivered'' \<and> deliveredAt ord = None \<longrightarrow>
          deliveredAt ord1 = Some now1)
     \<and> (deliveredAt ord \<noteq> None \<longrightarrow> deliveredAt ord1 = deliveredAt ord)
     \<and> (\<exists>os2 ord2. updateOrderStatus now2 os1 ident ''delivered'' tracking2 estimated2
            = Inr (os2, ord2)
          \<and> Order_findById os2 ident = Some ord2
          \<and> deliveredAt ord2 = deliveredAt ord1
          \<and> isDelivered ord2 = isDelivered ord1)
     \<and> (\<exists>os3 ord3 os4 ord4.
            updateOrderStatus now3 os1 ident ''returned'' tracking3 estimated3 = Inr (os3, ord3)
          \<and> orderStatus ord3 = ''returned''
          \<and> deliveredAt ord3 = deliveredAt ord1
          \<and> updateOrderStatus now4 os3 ident ''delivered'' tracking4 estimated4 = Inr (os4, ord4)
          \<and> orderStatus ord4 = ''delivered''
          \<and> isDelivered ord4
          \<and> (deliveredAt ord1 \<noteq> None \<longrightarrow> deliveredAt ord4 = deliveredAt ord1))"
proof -
  have del: "''delivered'' \<in> set ORDER_STATUS" and ret: "''returned'' \<in> set ORDER_STATUS"
    by (simp_all add: ORDER_STATUS_def)
  from updateOrderStatus_success [OF assms del, of now1 tracking estimated]
  obtain ord1 where
    r1: "updateOrderStatus now1 os ident ''delivered'' tracking estimated
          = Inr (store_order ord1 os, ord1)" and
    l1: "Order_findById (store_order ord1 os) ident = Some ord1" and
    v1: "order_valid ord1" and
    f1: "orderStatus ord1 = ''delivered''"
      "isDelivered ord1 = (isDelivered ord \<or> orderStatus ord \<noteq> ''delivered'')"
      "deliveredAt ord1 =
         (if orderStatus ord \<noteq> ''delivered'' \<and> deliveredAt ord = None then Some now1
          else deliveredAt ord)"
    by auto
  let ?os1 = "store_order ord1 os"
  from updateOrderStatus_success [OF l1 v1 del, of now2 tracking2 estimated2]
  obtain ord2 where
    r2: "updateOrderStatus now2 ?os1 ident ''delivered'' tracking2 estimated2
          = Inr (store_order ord2 ?os1, ord2)" and
    l2: "Order_findById (store_order ord2 ?os1) ident = Some ord2" and
    f2: "isDelivered ord2 = (isDelivered ord1 \<or> orderStatus ord1 \<noteq> ''delivered'')"
      "deliveredAt ord2 =
         (if orderStatus ord1 \<noteq> ''delivered'' \<and> deliveredAt ord1 = None then Some now2
          else deliveredAt ord1)"
    by auto
  from f1 f2 have same: "deliveredAt ord2 = deliveredAt ord1" "isDelivered ord2 = isDelivered ord1"
    by simp_all
  from r2 l2 same have second: "\<exists>os2 ord2.
      updateOrderStatus now2 ?os1 ident ''delivered'' tracking2 estimated2 = Inr (os2, ord2)
      \<and> Order_findById os2 ident = Some ord2
      \<and> deliveredAt ord2 = deliveredAt ord1
      \<and> isDelivered ord2 = isDelivered ord1"
    by blast
  from updateOrderStatus_success [OF l1 v1 ret, of now3 tracking3 estimated3]
  obtain ord3 where
    r3: "updateOrderStatus now3 ?os1 ident ''returned'' tracking3 estimated3
          = Inr (store_order ord3 ?os1, ord3)" and
    l3: "Order_findById (store_order ord3 ?os1) ident = Some ord3" and
    v3: "order_valid ord3" and
    f3: "orderStatus ord3 = ''returned''" "deliveredAt ord3 = deliveredAt ord1"
    by auto
  let ?os3 = "store_order ord3 ?os1"
  from updateOrderStatus_success [OF l3 v3 del, of now4 tracking4 estimated4]
  obtain ord4 where
    r4: "updateOrderStatus now4 ?os3 ident ''delivered'' tracking4 estimated4
          = Inr (store_order ord4 ?os3, ord4)" and
    f4: "orderStatus ord4 = ''delivered''"
      "isDelivered ord4 = (isDelivered ord3 \<or> orderStatus ord3 \<noteq> ''delivered'')"
      "deliveredAt ord4 =
         (if orderStatus ord3 \<noteq> ''delivered'' \<and> deliveredAt ord3 = None then Some now4
          else deliveredAt ord3)"
    by auto
  from f3 f4 have kept4: "isDelivered ord4"
    "deliveredAt ord1 \<noteq> None \<longrightarrow> deliveredAt ord4 = deliveredAt ord1"
    by simp_all
  from r3 f3 r4 f4(1) kept4 have third: "\<exists>os3 ord3 os4 ord4.
      updateOrderStatus now3 ?os1 ident ''returned'' tracking3 estimated3 = Inr (os3, ord3)
      \<and> orderStatus ord3 = ''returned''
      \<and> deliveredAt ord3 = deliveredAt ord1
      \<and> updateOrderStatus now4 os3 ident ''delivered'' tracking4 estimated4 = Inr (os4, ord4)
      \<and> orderStatus ord4 = ''delivered''
      \<and> isDelivered ord4
      \<and> (deliveredAt ord1 \<noteq> None \<longrightarrow> deliveredAt ord4 = deliveredAt ord1)"
    by blast
  from f1 have keep: "deliveredAt ord \<noteq> None \<longrightarrow> deliveredAt ord1 = deliveredAt ord"
    by simp
  from r1 l1 f1 keep second third show ?thesis
    by (intro exI [of _ ?os1] exI [of _ ord1]) simp
qed

lemma findById_demo: "Order_findById [order_first] ''o1'' = Some order_first"
  by (simp add: Order_findById_def order_first_def)

theorem updateOrderStatus_delivered_sets_deliveredAt_once_witness:
  "Order_findById [order_first] ''o1'' = Some order_first
   \<and> order_valid order_first
   \<and> orderStatus order_first \<noteq> ''delivered'' \<and> deliveredAt order_first = None
   \<and> (\<exists>os1 ord1. updateOrderStatus 1700000500000 [order_first] ''o1'' ''delivered''
          (Some ''TRK1'') None = Inr (os1, ord1)
       \<and> isDelivered ord1 \<and> deliveredAt ord1 = Some 1700000500000
       \<and> (\<exists>os2 ord2. updateOrderStatus 1700000900000 os1 ''o1'' ''delivered'' None None
              = Inr (os2, ord2)
           \<and> deliveredAt ord2 = Some 1700000500000 \<and> isDelivered ord2)
       \<and> (\<exists>os3 ord3 os4 ord4.
              updateOrderStatus 1700001000000 os1 ''o1'' ''returned'' None None = Inr (os3, ord3)
            \<and> orderStatus ord3 = ''returned''
            \<and> updateOrderStatus 1700002000000 os3 ''o1'' ''delivered'' None None
                = Inr (os4, ord4)
            \<and> isDelivered ord4 \<and> deliveredAt ord4 = Some 1700000500000))"
proof -
  have h: "orderStatus order_first \<noteq> ''delivered''" "deliveredAt order_first = None"
    by (simp_all add: order_first_def)
  from updateOrderStatus_delivered_sets_deliveredAt_once
    [OF findById_demo order_first_valid, of 1700000500000 "Some ''TRK1''" None
      1700000900000 None None 1700001000000 None None 1700002000000 None None] h
  obtain os1 ord1 os2 ord2 os3 ord3 os4 ord4 where
    "updateOrderStatus 1700000500000 [order_first] ''o1'' ''delivered'' (Some ''TRK1'') None
      = Inr (os1, ord1)"
    "isDelivered ord1" "deliveredAt ord1 = Some 1700000500000"
    "updateOrderStatus 1700000900000 os1 ''o1'' ''delivered'' None None = Inr (os2, ord2)"
    "deliveredAt ord2 = deliveredAt ord1" "isDelivered ord2 = isDelivered ord1"
    "updateOrderStatus 1700001000000 os1 ''o1'' ''returned'' None None = Inr (os3, ord3)"
    "orderStatus ord3 = ''returned''"
    "updateOrderStatus 1700002000000 os3 ''o1'' ''delivered'' None None = Inr (os4, ord4)"
    "isDelivered ord4" "deliveredAt ord1 \<noteq> None \<longrightarrow> deliveredAt ord4 = deliveredAt ord1"
    by blast
  with findById_demo order_first_valid h show ?thesis by auto
qed

section \<open>Order analytics\<close>

text \<open>
  C7, amended. When no order was created within the window, the summary of the
  analytics response is the empty object, with no \<open>totalOrders\<close>,
  \<open>totalRevenue\<close> or \<open>avgOrderValue\<close> field, and the status breakdown is the
  empty list; no error is raised.
\<close>

theorem getOrderAnalytics_empty_window:
  assumes "match_createdAt (window_start now (case days of None \<Rightarrow> 30 | Some d \<Rightarrow> d)) os = []"
  shows "getOrderAnalytics now days os = ([], [])
     \<and> map_of (fst (getOrderAnalytics now days os)) ''totalOrders'' = None
     \<and> map_of (fst (getOrderAnalytics now days os)) ''totalRevenue'' = None
     \<and> map_of (fst (getOrderAnalytics now days os)) ''avgOrderValue'' = None"
  using assms by (simp add: getOrderAnalytics_def group_summary_def group_by_status_def Let_def)

theorem getOrderAnalytics_empty_window_witness:
  "match_createdAt (window_start 1700000000000 30) [order_old] = []
   \<and> getOrderAnalytics 1700000000000 (Some 30) [order_old] = ([], [])"
proof -
  have h: "match_createdAt (window_start 1700000000000 (case Some 30 of None \<Rightarrow> 30 | Some d \<Rightarrow> d))
      [order_old] = []"
    by (simp add: match_createdAt_def window_start_def order_old_def)
  from getOrderAnalytics_empty_window [OF h] h show ?thesis by simp
qed

text \<open>
  C7, as the claim states it, fails: with no order at all, the summary has no
  \<open>totalOrders\<close>, \<open>totalRevenue\<close> or \<open>avgOrderValue\<close> field, so none of them
  is 0.
\<close>

theorem getOrderAnalytics_no_orders_counterexample:
  "getOrderAnalytics 1700000000000 (Some 30) [] = ([], [])
   \<and> map_of (fst (getOrderAnalytics 1700000000000 (Some 30) [])) ''totalOrders''
       \<noteq> Some (JNum 0)
   \<and> map_of (fst (getOrderAnalytics 1700000000000 (Some 30) [])) ''totalRevenue''
       \<noteq> Some (JNum 0)
   \<and> map_of (fst (getOrderAnalytics 1700000000000 (Some 30) [])) ''avgOrderValue''
       \<noteq> Some (JNum 0)"
  by (simp add: getOrderAnalytics_def group_summary_def group_by_status_def Let_def
      match_createdAt_def)

lemma getOrderAnalytics_one_order:
  "map_of (fst (getOrderAnalytics 1700000001000 None [order_first])) ''totalOrders''
     = Some (JNum 1)
   \<and> map_of (fst (getOrderAnalytics 1700000001000 None [order_first])) ''avgOrderValue''
     = Some (JNum 20)"
  by (simp add: getOrderAnalytics_def group_summary_def Let_def match_createdAt_def
      window_start_def order_first_def)

end
